theory Spec2Isabelle
  imports Main "HOL-Library.Word" "HOL-Library.Signed_Division"
begin

unbundle bit_operations_syntax

section \<open>Machine types\<close>

text \<open>
  The decoder file names its target in its first comment: the Arduino Mega 2560. On that
  controller \<^verbatim>\<open>int\<close> and \<^verbatim>\<open>unsigned int\<close> are 16 bits wide,
  \<^verbatim>\<open>long\<close> and \<^verbatim>\<open>unsigned long\<close> are 32 bits wide and
  \<^verbatim>\<open>byte\<close> is 8 bits wide. Every integer of the source is a word of its width:
  addition, subtraction and multiplication wrap, \<open>unat\<close> and \<open>uint\<close> read a word as
  unsigned, \<open>sint\<close> reads it as two's complement, \<open><s\<close> and \<open>\<le>s\<close> compare signed.
\<close>

type_synonym uint8 = "8 word"
type_synonym uint16 = "16 word"
type_synonym int16 = "16 word"
type_synonym uint32 = "32 word"
type_synonym long32 = "32 word"

section \<open>Configuration and state\<close>

datatype TrigSpeed = CRANK_SPEED | CAM_SPEED

text \<open>
  The four secondary patterns the switch of \<^verbatim>\<open>triggerSec_missingTooth\<close> names, and
  one constructor for every other value of the field (the switch has no default).
\<close>

datatype trigPatternSec =
  SEC_TRIGGER_SINGLE | SEC_TRIGGER_4_1 | SEC_TRIGGER_POLL | SEC_TRIGGER_TOYOTA_3 | SEC_TRIGGER_OTHER

datatype sparkMode = IGN_MODE_SEQUENTIAL | IGN_MODE_SINGLE | IGN_MODE_OTHER

text \<open>
  The configuration pages and the compile-time constants of \<^verbatim>\<open>globals.h\<close> that the
  decoder reads and never writes. \<^verbatim>\<open>globals.h\<close> is not among the sources, so the
  constants \<open>MAX_RPM\<close>, \<open>CRANK_ANGLE_MAX\<close> and \<open>IGN_CHANNELS\<close> are fields here. The tooth
  counts are bytes: the source passes \<^verbatim>\<open>configPage4.triggerTeeth\<close> as
  \<^verbatim>\<open>byte totalTeeth\<close> and stores it in \<^verbatim>\<open>uint8_t toothAdder\<close>.
\<close>

record config =
  triggerTeeth :: uint8
  triggerMissingTeeth :: uint8
  triggerAngle :: int16
  TrigSpeed :: TrigSpeed
  trigPatternSec :: trigPatternSec
  triggerFilter :: uint8
  StgCycles :: uint8
  useResync :: uint8
  perToothIgn :: bool
  sparkMode :: sparkMode
  vvtEnabled :: uint8
  vvtModeClosedLoop :: bool
  vvtCL0DutyAng :: int16
  vvt2CL0DutyAng :: int16
  ANGLEFILTER_VVT :: uint8
  MAX_RPM :: uint16
  CRANK_ANGLE_MAX :: int16
  IGN_CHANNELS :: nat

text \<open>The fields of \<^verbatim>\<open>currentStatus\<close> that the decoder touches.\<close>

record statuses =
  hasSync :: bool
  halfSync :: bool
  RPM :: uint16
  crankRPM :: uint16
  startRevolutions :: uint16
  syncLossCounter :: uint8
  vvt1Angle :: long32
  vvt2Angle :: long32
  engineCrank :: bool

text \<open>
  The globals of the decoder. The ignition schedules belong to the scheduler;
  \<open>adjustCrankAngle_calls\<close> records each call of \<^verbatim>\<open>adjustCrankAngle\<close> as the
  channel number and the crank angle handed over. \<open>revolutionTime\<close> and
  \<open>fixedCrankingOverride\<close> are globals of other files that the decoder reads or writes.
\<close>

record decoder =
  curTime :: uint32
  curGap :: uint32
  curTime2 :: uint32
  curGap2 :: uint32
  curTime3 :: uint32
  curGap3 :: uint32
  targetGap2 :: uint32
  toothCurrentCount :: uint16
  toothLastToothTime :: uint32
  toothLastSecToothTime :: uint32
  toothLastThirdToothTime :: uint32
  toothLastMinusOneToothTime :: uint32
  toothLastMinusOneSecToothTime :: uint32
  toothOneTime :: uint32
  toothOneMinusOneTime :: uint32
  revolutionOne :: bool
  secondaryToothCount :: uint16
  thirdToothCount :: uint16
  triggerActualTeeth :: uint16
  triggerFilterTime :: uint32
  triggerSecFilterTime :: uint32
  triggerThirdFilterTime :: uint32
  decoderState :: uint8
  revolutionTime :: uint32
  microsPerDegree :: uint32
  degreesPerMicro :: uint16
  triggerToothAngle :: uint16
  elapsedTime :: uint32
  lastCrankAngleCalc :: uint32
  ignition1EndTooth :: uint16
  ignition2EndTooth :: uint16
  ignition3EndTooth :: uint16
  ignition4EndTooth :: uint16
  ignition5EndTooth :: uint16
  ignition6EndTooth :: uint16
  ignition7EndTooth :: uint16
  ignition8EndTooth :: uint16
  fixedCrankingOverride :: uint8
  adjustCrankAngle_calls :: "(nat \<times> int16) list"
  currentStatus :: statuses

section \<open>Arithmetic helpers\<close>

text \<open>
  Modelled from the spec: the macro \<^verbatim>\<open>RSHIFT_ROUND\<close> of the absent maths header.
  The spec writes the conversions as \<open>round(x) >> s\<close> with rounding to nearest: half of
  the divisor is added before the shift, in the 32 bits of the operand.
\<close>

definition RSHIFT_ROUND :: "uint32 \<Rightarrow> nat \<Rightarrow> uint32" where
  "RSHIFT_ROUND n s = drop_bit s (n + push_bit (s - 1) 1)"

text \<open>
  Modelled from the spec: the macro \<^verbatim>\<open>UDIV_ROUND_CLOSEST\<close> of the absent maths header,
  the spec's round-to-nearest integer division, at the 32-bit type the source passes.
  A divisor 0 is not excluded by the callers; the quotient is then the one of HOL, 0.
\<close>

definition UDIV_ROUND_CLOSEST :: "uint32 \<Rightarrow> uint32 \<Rightarrow> uint32" where
  "UDIV_ROUND_CLOSEST n d = (n + drop_bit 1 d) div d"

text \<open>
  Modelled from the spec: \<^verbatim>\<open>udiv_32_16_closest\<close> of the absent maths header, the
  narrow fast path that the spec calls functionally equivalent to the general rounded
  division; its result is a 16-bit value.
\<close>

definition udiv_32_16_closest :: "uint32 \<Rightarrow> uint16 \<Rightarrow> uint16" where
  "udiv_32_16_closest dividend divisor = ucast (UDIV_ROUND_CLOSEST dividend (ucast divisor))"

text \<open>
  Modelled from the spec: \<^verbatim>\<open>div360\<close> of the absent maths header; the spec gives
  \<open>microsPerDegree = T / 360\<close>.
\<close>

definition div360 :: "uint32 \<Rightarrow> uint32" where
  "div360 n = n div 360"

text \<open>
  Modelled from the spec: the constant \<^verbatim>\<open>MICROS_PER_MIN\<close> of the absent
  \<^verbatim>\<open>globals.h\<close>; the spec gives the steady-state RPM as 60,000,000 over the
  revolution time. \<open>UINT16_MAX\<close> is the constant of the C standard header.
\<close>

definition MICROS_PER_MIN :: uint32 where
  "MICROS_PER_MIN = 60000000"

definition UINT16_MAX :: uint32 where
  "UINT16_MAX = 65535"

text \<open>Division of C on \<^verbatim>\<open>int16_t\<close>: the quotient is truncated towards zero.\<close>

definition sdiv16 :: "int16 \<Rightarrow> int16 \<Rightarrow> int16" where
  "sdiv16 a b = word_of_int (sint a sdiv sint b)"

section \<open>Fixed-point conversions\<close>

definition angleToTimeMicroSecPerDegree :: "decoder \<Rightarrow> uint16 \<Rightarrow> uint32" where
  "angleToTimeMicroSecPerDegree s angle =
     (let micros = ucast angle * microsPerDegree s
      in RSHIFT_ROUND micros 8)"

definition timeToAngleDegPerMicroSec :: "decoder \<Rightarrow> uint32 \<Rightarrow> uint16" where
  "timeToAngleDegPerMicroSec s time =
     (let degFixed = time * ucast (degreesPerMicro s)
      in ucast (RSHIFT_ROUND degFixed 15))"

text \<open>
  The spec's words for the conversions: \<open>r\<close> is a nearest integer to the quotient
  \<open>x / d\<close> when twice its distance from the quotient is at most 1, that is when
  \<open>2 * \<bar>r * d - x\<bar> \<le> d\<close>.
\<close>

definition is_nearest_integer :: "int \<Rightarrow> int \<Rightarrow> int \<Rightarrow> bool" where
  "is_nearest_integer r x d \<longleftrightarrow> 2 * \<bar>r * d - x\<bar> \<le> d"

section \<open>Revolution time\<close>

definition SetRevolutionTime :: "uint32 \<Rightarrow> decoder \<Rightarrow> bool \<times> decoder" where
  "SetRevolutionTime revTime s =
     (if revTime \<noteq> revolutionTime s then
        (let s1 = s\<lparr>revolutionTime := revTime\<rparr>;
             s2 = s1\<lparr>microsPerDegree := div360 (push_bit 8 (revolutionTime s1))\<rparr>;
             s3 = s2\<lparr>degreesPerMicro :=
                       ucast (UDIV_ROUND_CLOSEST (push_bit 15 360) (revolutionTime s2))\<rparr>
         in (True, s3))
      else (False, s))"

text \<open>
  The two derivatives reflect the stored revolution time: each is what
  \<open>SetRevolutionTime\<close> computes from it.
\<close>

definition derivatives_match :: "decoder \<Rightarrow> bool" where
  "derivatives_match s \<longleftrightarrow>
     microsPerDegree s = div360 (push_bit 8 (revolutionTime s)) \<and>
     degreesPerMicro s = ucast (UDIV_ROUND_CLOSEST (push_bit 15 360) (revolutionTime s))"

section \<open>RPM estimator\<close>

definition IsCranking :: "statuses \<Rightarrow> bool" where
  "IsCranking status \<longleftrightarrow> RPM status < crankRPM status \<and> startRevolutions status = 0"

text \<open>
  Modelled from the spec: \<^verbatim>\<open>HasAnySync\<close> of the absent \<^verbatim>\<open>globals.h\<close>. The spec
  asks for "at least partial sync"; \<^verbatim>\<open>crankingGetRPM\<close> writes the same test out as
  full sync or the half-sync bit.
\<close>

definition HasAnySync :: "statuses \<Rightarrow> bool" where
  "HasAnySync status \<longleftrightarrow> hasSync status \<or> halfSync status"

text \<open>
  The conjunction of the source is evaluated left to right and stops at the first false
  operand, so \<open>SetRevolutionTime\<close> runs only when the four tests before it hold.
\<close>

definition UpdateRevolutionTimeFromTeeth :: "bool \<Rightarrow> decoder \<Rightarrow> bool \<times> decoder" where
  "UpdateRevolutionTimeFromTeeth isCamTeeth s =
     (if HasAnySync (currentStatus s)
         \<and> \<not> IsCranking (currentStatus s)
         \<and> toothOneMinusOneTime s \<noteq> 0
         \<and> toothOneMinusOneTime s < toothOneTime s
      then SetRevolutionTime
             (drop_bit (if isCamTeeth then 1 else 0) (toothOneTime s - toothOneMinusOneTime s)) s
      else (False, s))"

definition clampRpm :: "config \<Rightarrow> decoder \<Rightarrow> uint16 \<Rightarrow> uint16" where
  "clampRpm cfg s rpm = (if MAX_RPM cfg \<le> rpm then RPM (currentStatus s) else rpm)"

definition RpmFromRevolutionTimeUs :: "config \<Rightarrow> decoder \<Rightarrow> uint32 \<Rightarrow> uint16" where
  "RpmFromRevolutionTimeUs cfg s revTime =
     (if revTime < UINT16_MAX
      then clampRpm cfg s (udiv_32_16_closest MICROS_PER_MIN (ucast revTime))
      else clampRpm cfg s (ucast (UDIV_ROUND_CLOSEST MICROS_PER_MIN revTime)))"

definition stdGetRPM :: "config \<Rightarrow> bool \<Rightarrow> decoder \<Rightarrow> uint16 \<times> decoder" where
  "stdGetRPM cfg isCamTeeth s =
     (case UpdateRevolutionTimeFromTeeth isCamTeeth s of
        (True, s') \<Rightarrow> (RpmFromRevolutionTimeUs cfg s' (revolutionTime s'), s')
      | (False, s') \<Rightarrow> (RPM (currentStatus s'), s'))"

definition setFilter :: "config \<Rightarrow> uint32 \<Rightarrow> decoder \<Rightarrow> decoder" where
  "setFilter cfg gap s =
     (if triggerFilter cfg = 0 then s\<lparr>triggerFilterTime := 0\<rparr>
      else if triggerFilter cfg = 1 then s\<lparr>triggerFilterTime := drop_bit 2 gap\<rparr>
      else if triggerFilter cfg = 2 then s\<lparr>triggerFilterTime := drop_bit 1 gap\<rparr>
      else if triggerFilter cfg = 3 then s\<lparr>triggerFilterTime := drop_bit 2 (gap * 3)\<rparr>
      else s\<lparr>triggerFilterTime := 0\<rparr>)"

definition crankingGetRPM :: "config \<Rightarrow> uint8 \<Rightarrow> bool \<Rightarrow> decoder \<Rightarrow> int16 \<times> decoder" where
  "crankingGetRPM cfg totalTeeth isCamTeeth s =
     (if ucast (StgCycles cfg) \<le> startRevolutions (currentStatus s)
         \<and> (hasSync (currentStatus s) \<or> halfSync (currentStatus s))
         \<and> 0 < toothLastMinusOneToothTime s
         \<and> toothLastMinusOneToothTime s < toothLastToothTime s
      then
        (case SetRevolutionTime
                (drop_bit (if isCamTeeth then 1 else 0)
                   ((toothLastToothTime s - toothLastMinusOneToothTime s) * ucast totalTeeth)) s of
           (True, s') \<Rightarrow> (RpmFromRevolutionTimeUs cfg s' (revolutionTime s'), s')
         | (False, s') \<Rightarrow> (RPM (currentStatus s'), s'))
      else (RPM (currentStatus s), s))"

text \<open>
  The value that \<open>RpmFromRevolutionTimeUs\<close> hands to \<open>clampRpm\<close>: the rounded
  quotient, by the narrow division below \<open>UINT16_MAX\<close> and by the general one
  otherwise.
\<close>

definition computedRpm :: "uint32 \<Rightarrow> uint16" where
  "computedRpm revTime =
     (if revTime < UINT16_MAX then udiv_32_16_closest MICROS_PER_MIN (ucast revTime)
      else ucast (UDIV_ROUND_CLOSEST MICROS_PER_MIN revTime))"

text \<open>
  The revolution time that \<open>stdGetRPM\<close> hands to \<open>SetRevolutionTime\<close>, and the
  condition under which it computes a new RPM: the four tests of
  \<open>UpdateRevolutionTimeFromTeeth\<close> hold and the time differs from the stored one.
\<close>

definition steadyRevolutionTime :: "bool \<Rightarrow> decoder \<Rightarrow> uint32" where
  "steadyRevolutionTime isCamTeeth s =
     drop_bit (if isCamTeeth then 1 else 0) (toothOneTime s - toothOneMinusOneTime s)"

definition steadyUpdates :: "bool \<Rightarrow> decoder \<Rightarrow> bool" where
  "steadyUpdates isCamTeeth s \<longleftrightarrow>
     HasAnySync (currentStatus s)
     \<and> \<not> IsCranking (currentStatus s)
     \<and> toothOneMinusOneTime s \<noteq> 0
     \<and> toothOneMinusOneTime s < toothOneTime s
     \<and> steadyRevolutionTime isCamTeeth s \<noteq> revolutionTime s"

text \<open>The same for \<open>crankingGetRPM\<close>, from the last two teeth.\<close>

definition crankingRevolutionTime :: "uint8 \<Rightarrow> bool \<Rightarrow> decoder \<Rightarrow> uint32" where
  "crankingRevolutionTime totalTeeth isCamTeeth s =
     drop_bit (if isCamTeeth then 1 else 0)
       ((toothLastToothTime s - toothLastMinusOneToothTime s) * ucast totalTeeth)"

definition crankingUpdates :: "config \<Rightarrow> uint8 \<Rightarrow> bool \<Rightarrow> decoder \<Rightarrow> bool" where
  "crankingUpdates cfg totalTeeth isCamTeeth s \<longleftrightarrow>
     ucast (StgCycles cfg) \<le> startRevolutions (currentStatus s)
     \<and> (hasSync (currentStatus s) \<or> halfSync (currentStatus s))
     \<and> 0 < toothLastMinusOneToothTime s
     \<and> toothLastMinusOneToothTime s < toothLastToothTime s
     \<and> crankingRevolutionTime totalTeeth isCamTeeth s \<noteq> revolutionTime s"

section \<open>Per-tooth ignition timing\<close>

text \<open>
  Modelled from the spec: \<^verbatim>\<open>adjustCrankAngle\<close> of the absent scheduler, the
  timing-adjustment entry point that is handed the live angle. The schedules are not
  part of the decoder, so the call is recorded and nothing else changes.
\<close>

definition adjustCrankAngle :: "nat \<Rightarrow> int16 \<Rightarrow> decoder \<Rightarrow> decoder" where
  "adjustCrankAngle channel crankAngle s =
     s\<lparr>adjustCrankAngle_calls := adjustCrankAngle_calls s @ [(channel, crankAngle)]\<rparr>"

text \<open>Channels 5 to 8 are compiled in when \<^verbatim>\<open>IGN_CHANNELS\<close> reaches their number.\<close>

definition checkPerToothTiming :: "config \<Rightarrow> int16 \<Rightarrow> uint16 \<Rightarrow> decoder \<Rightarrow> decoder" where
  "checkPerToothTiming cfg crankAngle currentTooth s =
     (if fixedCrankingOverride s = 0 \<and> 0 < RPM (currentStatus s) then
        (if currentTooth = ignition1EndTooth s then adjustCrankAngle 1 crankAngle s
         else if currentTooth = ignition2EndTooth s then adjustCrankAngle 2 crankAngle s
         else if currentTooth = ignition3EndTooth s then adjustCrankAngle 3 crankAngle s
         else if currentTooth = ignition4EndTooth s then adjustCrankAngle 4 crankAngle s
         else if 5 \<le> IGN_CHANNELS cfg \<and> currentTooth = ignition5EndTooth s
           then adjustCrankAngle 5 crankAngle s
         else if 6 \<le> IGN_CHANNELS cfg \<and> currentTooth = ignition6EndTooth s
           then adjustCrankAngle 6 crankAngle s
         else if 7 \<le> IGN_CHANNELS cfg \<and> currentTooth = ignition7EndTooth s
           then adjustCrankAngle 7 crankAngle s
         else if 8 \<le> IGN_CHANNELS cfg \<and> currentTooth = ignition8EndTooth s
           then adjustCrankAngle 8 crankAngle s
         else s)
      else s)"

section \<open>Crank angle\<close>

text \<open>
  Every call of \<^verbatim>\<open>micros()\<close> is an argument: \<open>now\<close> is the clock value the call
  returns. The functions return the angle together with the state, since they store
  \<^verbatim>\<open>lastCrankAngleCalc\<close> and \<^verbatim>\<open>elapsedTime\<close>.
\<close>

definition getCrankAngle_missingTooth :: "config \<Rightarrow> uint32 \<Rightarrow> decoder \<Rightarrow> int16 \<times> decoder" where
  "getCrankAngle_missingTooth cfg now s =
     (let tempToothCurrentCount = toothCurrentCount s;
          tempRevolutionOne = revolutionOne s;
          tempToothLastToothTime = toothLastToothTime s;
          a0 = (tempToothCurrentCount - 1) * triggerToothAngle s + triggerAngle cfg;
          a1 = (if tempRevolutionOne \<and> TrigSpeed cfg = CRANK_SPEED then a0 + 360 else a0);
          s1 = s\<lparr>lastCrankAngleCalc := now\<rparr>;
          s2 = s1\<lparr>elapsedTime := lastCrankAngleCalc s1 - tempToothLastToothTime\<rparr>;
          a2 = a1 + timeToAngleDegPerMicroSec s2 (elapsedTime s2);
          a3 = (if 720 \<le>s a2 then a2 - 720 else a2);
          a4 = (if a3 <s 0 then a3 + CRANK_ANGLE_MAX cfg else a3)
      in (a4, s2))"

definition getCrankAngle_DualWheel :: "config \<Rightarrow> uint32 \<Rightarrow> decoder \<Rightarrow> int16 \<times> decoder" where
  "getCrankAngle_DualWheel cfg now s =
     (let tempToothCurrentCount = toothCurrentCount s;
          tempToothLastToothTime = toothLastToothTime s;
          tempRevolutionOne = revolutionOne s;
          s1 = s\<lparr>lastCrankAngleCalc := now\<rparr>;
          tempToothCurrentCount' =
            (if tempToothCurrentCount = 0 then ucast (triggerTeeth cfg) else tempToothCurrentCount);
          a0 = (tempToothCurrentCount' - 1) * triggerToothAngle s1 + triggerAngle cfg;
          s2 = s1\<lparr>elapsedTime := lastCrankAngleCalc s1 - tempToothLastToothTime\<rparr>;
          a1 = a0 + timeToAngleDegPerMicroSec s2 (elapsedTime s2);
          a2 = (if tempRevolutionOne \<and> TrigSpeed cfg = CRANK_SPEED then a1 + 360 else a1);
          a3 = (if 720 \<le>s a2 then a2 - 720 else a2);
          a4 = (if a3 <s 0 then a3 + CRANK_ANGLE_MAX cfg else a3)
      in (a4, s2))"

text \<open>
  The value of \<^verbatim>\<open>crankAngle\<close> in the two functions just before their two range
  tests: tooth offset, trigger angle, sequential offset and the extrapolated part.
\<close>

definition unwrappedAngle_missingTooth :: "config \<Rightarrow> uint32 \<Rightarrow> decoder \<Rightarrow> int16" where
  "unwrappedAngle_missingTooth cfg now s =
     (toothCurrentCount s - 1) * triggerToothAngle s + triggerAngle cfg
     + (if revolutionOne s \<and> TrigSpeed cfg = CRANK_SPEED then 360 else 0)
     + timeToAngleDegPerMicroSec s (now - toothLastToothTime s)"

definition unwrappedAngle_DualWheel :: "config \<Rightarrow> uint32 \<Rightarrow> decoder \<Rightarrow> int16" where
  "unwrappedAngle_DualWheel cfg now s =
     ((if toothCurrentCount s = 0 then ucast (triggerTeeth cfg) else toothCurrentCount s) - 1)
       * triggerToothAngle s + triggerAngle cfg
     + timeToAngleDegPerMicroSec s (now - toothLastToothTime s)
     + (if revolutionOne s \<and> TrigSpeed cfg = CRANK_SPEED then 360 else 0)"

section \<open>VVT angle capture\<close>

text \<open>
  The macro \<^verbatim>\<open>ANGLE_FILTER\<close> of \<^verbatim>\<open>decoders.h\<close>: input and prior are widened to
  \<^verbatim>\<open>long\<close>, the shift of the signed sum keeps the sign.
\<close>

definition ANGLE_FILTER :: "int16 \<Rightarrow> uint8 \<Rightarrow> long32 \<Rightarrow> long32" where
  "ANGLE_FILTER input alpha prior =
     signed_drop_bit 8 (scast input * (256 - ucast alpha) + prior * ucast alpha)"

text \<open>The loop \<^verbatim>\<open>while(curAngle > 360) { curAngle -= 360; }\<close> on \<^verbatim>\<open>int16_t\<close>.\<close>

function reduce360 :: "int16 \<Rightarrow> int16" where
  "reduce360 a = (if 360 <s a then reduce360 (a - 360) else a)"
  by pat_completeness auto
termination
proof (relation "measure (\<lambda>a. nat (sint a))")
  show "wf (measure (\<lambda>a :: int16. nat (sint a)))"
    by simp
next
  fix a :: int16
  assume h: "360 <s a"
  have upper: "sint a < 2 ^ 15"
    using sint_lt [of a] by simp
  have lower: "360 < sint a"
    using h by (simp add: word_sless_alt)
  have "sint (a - 360) = signed_take_bit 15 (sint a - sint (360 :: int16))"
    by (simp add: sint_word_ariths)
  also have "\<dots> = sint a - 360"
    using upper lower by (simp add: signed_take_bit_int_eq_self)
  finally show "(a - 360, a) \<in> measure (\<lambda>a. nat (sint a))"
    using lower by simp
qed

text \<open>
  \<^verbatim>\<open>getCrankAngle\<close> is the function pointer of the active decoder; the handlers below
  are those of the missing-tooth decoder, so the call goes to
  \<open>getCrankAngle_missingTooth\<close>.
\<close>

definition triggerRecordVVT1Angle :: "config \<Rightarrow> uint32 \<Rightarrow> decoder \<Rightarrow> decoder" where
  "triggerRecordVVT1Angle cfg now s =
     (if 0 < vvtEnabled cfg \<and> revolutionOne s then
        (let (a, s1) = getCrankAngle_missingTooth cfg now s;
             curAngle0 = reduce360 a;
             curAngle1 = curAngle0 - triggerAngle cfg;
             curAngle2 = (if vvtModeClosedLoop cfg then curAngle1 - vvtCL0DutyAng cfg
                          else curAngle1)
         in s1\<lparr>currentStatus := (currentStatus s1)
                  \<lparr>vvt1Angle := ANGLE_FILTER (push_bit 1 curAngle2) (ANGLEFILTER_VVT cfg)
                                  (vvt1Angle (currentStatus s1))\<rparr>\<rparr>)
      else s)"

section \<open>Missing-tooth decoder: secondary and tertiary handlers\<close>

definition triggerSec_missingTooth :: "config \<Rightarrow> uint32 \<Rightarrow> uint32 \<Rightarrow> decoder \<Rightarrow> decoder" where
  "triggerSec_missingTooth cfg now now' s =
     (let s1 = s\<lparr>curTime2 := now\<rparr>;
          s2 = s1\<lparr>curGap2 := curTime2 s1 - toothLastSecToothTime s1\<rparr>;
          s3 = (if toothLastSecToothTime s2 = 0
                then s2\<lparr>curGap2 := 0, toothLastSecToothTime := curTime2 s2\<rparr>
                else s2)
      in if triggerSecFilterTime s3 \<le> curGap2 s3 then
           (let s4 =
              (case trigPatternSec cfg of
                 SEC_TRIGGER_4_1 \<Rightarrow>
                   (let p1 = s3\<lparr>targetGap2 :=
                                 drop_bit 1 (3 * (toothLastSecToothTime s3
                                                  - toothLastMinusOneSecToothTime s3))\<rparr>;
                        p2 = p1\<lparr>toothLastMinusOneSecToothTime := toothLastSecToothTime p1\<rparr>
                    in if targetGap2 p2 \<le> curGap2 p2 \<or> 3 < secondaryToothCount p2 then
                         triggerRecordVVT1Angle cfg now'
                           (p2\<lparr>secondaryToothCount := 1, revolutionOne := True,
                               triggerSecFilterTime := 0\<rparr>)
                       else
                         p2\<lparr>triggerSecFilterTime := drop_bit 2 (curGap2 p2),
                            secondaryToothCount := secondaryToothCount p2 + 1\<rparr>)
               | SEC_TRIGGER_POLL \<Rightarrow>
                   triggerRecordVVT1Angle cfg now'
                     (s3\<lparr>triggerSecFilterTime := drop_bit 1 (curGap2 s3)\<rparr>)
               | SEC_TRIGGER_SINGLE \<Rightarrow>
                   triggerRecordVVT1Angle cfg now'
                     (s3\<lparr>revolutionOne := True,
                         triggerSecFilterTime := drop_bit 1 (curGap2 s3),
                         secondaryToothCount := secondaryToothCount s3 + 1\<rparr>)
               | SEC_TRIGGER_TOYOTA_3 \<Rightarrow>
                   (let p1 = s3\<lparr>secondaryToothCount := secondaryToothCount s3 + 1\<rparr>;
                        p2 = (if secondaryToothCount p1 = 2
                              then triggerRecordVVT1Angle cfg now' (p1\<lparr>revolutionOne := True\<rparr>)
                              else p1)
                    in p2\<lparr>triggerSecFilterTime := drop_bit 2 (curGap2 p2)\<rparr>)
               | SEC_TRIGGER_OTHER \<Rightarrow> s3)
            in s4\<lparr>toothLastSecToothTime := curTime2 s4\<rparr>)
         else s3)"

definition triggerThird_missingTooth :: "config \<Rightarrow> uint32 \<Rightarrow> uint32 \<Rightarrow> decoder \<Rightarrow> decoder" where
  "triggerThird_missingTooth cfg now now' s =
     (let s1 = s\<lparr>curTime3 := now\<rparr>;
          s2 = s1\<lparr>curGap3 := curTime3 s1 - toothLastThirdToothTime s1\<rparr>;
          s3 = (if toothLastThirdToothTime s2 = 0
                then s2\<lparr>curGap3 := 0, toothLastThirdToothTime := curTime3 s2\<rparr>
                else s2)
      in if triggerThirdFilterTime s3 \<le> curGap3 s3 then
           (let s4 = s3\<lparr>thirdToothCount := thirdToothCount s3 + 1\<rparr>;
                s5 = s4\<lparr>triggerThirdFilterTime := drop_bit 2 (curGap3 s4)\<rparr>;
                (a, s6) = getCrankAngle_missingTooth cfg now' s5;
                curAngle0 = reduce360 a;
                curAngle1 = curAngle0 - triggerAngle cfg;
                curAngle2 = (if vvtModeClosedLoop cfg then curAngle1 - vvt2CL0DutyAng cfg
                             else curAngle1);
                s7 = s6\<lparr>currentStatus := (currentStatus s6)
                          \<lparr>vvt2Angle := ANGLE_FILTER (push_bit 1 curAngle2) (ANGLEFILTER_VVT cfg)
                                          (vvt2Angle (currentStatus s6))\<rparr>\<rparr>
            in s7\<lparr>toothLastThirdToothTime := curTime3 s7\<rparr>)
         else s3)"

section \<open>Dual-wheel decoder: primary and secondary handlers\<close>

text \<open>
  \<^verbatim>\<open>BIT_SET(decoderState, BIT_DECODER_VALID_TRIGGER)\<close> sets bit 5 of the status byte.
\<close>

definition triggerPri_DualWheel :: "config \<Rightarrow> uint32 \<Rightarrow> decoder \<Rightarrow> decoder" where
  "triggerPri_DualWheel cfg now s =
     (let s1 = s\<lparr>curTime := now\<rparr>;
          s2 = s1\<lparr>curGap := curTime s1 - toothLastToothTime s1\<rparr>
      in if triggerFilterTime s2 \<le> curGap s2 then
           (let s3 = s2\<lparr>toothCurrentCount := toothCurrentCount s2 + 1\<rparr>;
                s4 = s3\<lparr>decoderState := set_bit 5 (decoderState s3)\<rparr>;
                s5 = s4\<lparr>toothLastMinusOneToothTime := toothLastToothTime s4\<rparr>;
                s6 = s5\<lparr>toothLastToothTime := curTime s5\<rparr>;
                s7 =
                  (if hasSync (currentStatus s6) then
                     (let r =
                        (if toothCurrentCount s6 = 1
                            \<or> ucast (triggerTeeth cfg) < toothCurrentCount s6 then
                           (let r1 = s6\<lparr>toothCurrentCount := 1\<rparr>;
                                r2 = r1\<lparr>revolutionOne := \<not> revolutionOne r1\<rparr>;
                                r3 = r2\<lparr>toothOneMinusOneTime := toothOneTime r2\<rparr>;
                                r4 = r3\<lparr>toothOneTime := curTime r3\<rparr>;
                                r5 = r4\<lparr>currentStatus := (currentStatus r4)
                                          \<lparr>startRevolutions :=
                                             startRevolutions (currentStatus r4) + 1\<rparr>\<rparr>
                            in if TrigSpeed cfg = CAM_SPEED
                               then r5\<lparr>currentStatus := (currentStatus r5)
                                          \<lparr>startRevolutions :=
                                             startRevolutions (currentStatus r5) + 1\<rparr>\<rparr>
                               else r5)
                         else s6)
                      in setFilter cfg (curGap r) r)
                   else s6)
            in if perToothIgn cfg \<and> \<not> engineCrank (currentStatus s7) then
                 (let crankAngle = (toothCurrentCount s7 - 1) * triggerToothAngle s7
                                   + triggerAngle cfg
                  in if sparkMode cfg = IGN_MODE_SEQUENTIAL \<and> revolutionOne s7
                        \<and> TrigSpeed cfg = CRANK_SPEED
                     then checkPerToothTiming cfg (crankAngle + 360)
                            (ucast (triggerTeeth cfg) + toothCurrentCount s7) s7
                     else checkPerToothTiming cfg crankAngle (toothCurrentCount s7) s7)
               else s7)
         else s2)"

text \<open>
  The secondary handler reads the clock three times when it declares sync: \<open>now\<close> on
  entry, \<open>now'\<close> for \<^verbatim>\<open>toothLastToothTime\<close> and \<open>now''\<close> for
  \<^verbatim>\<open>toothLastMinusOneToothTime\<close>.
\<close>

definition triggerSec_DualWheel ::
  "config \<Rightarrow> uint32 \<Rightarrow> uint32 \<Rightarrow> uint32 \<Rightarrow> decoder \<Rightarrow> decoder" where
  "triggerSec_DualWheel cfg now now' now'' s =
     (let s1 = s\<lparr>curTime2 := now\<rparr>;
          s2 = s1\<lparr>curGap2 := curTime2 s1 - toothLastSecToothTime s1\<rparr>
      in if triggerSecFilterTime s2 \<le> curGap2 s2 then
           (let s3 = s2\<lparr>toothLastSecToothTime := curTime2 s2\<rparr>;
                s4 = s3\<lparr>triggerSecFilterTime := drop_bit 2 (curGap2 s3)\<rparr>;
                s5 =
                  (if \<not> hasSync (currentStatus s4)
                      \<or> startRevolutions (currentStatus s4) \<le> ucast (StgCycles cfg) then
                     (let q1 = s4\<lparr>toothLastToothTime := now'\<rparr>;
                          q2 = q1\<lparr>toothLastMinusOneToothTime :=
                                    now'' - (MICROS_PER_MIN div 10) div ucast (triggerTeeth cfg)\<rparr>;
                          q3 = q2\<lparr>toothCurrentCount := ucast (triggerTeeth cfg)\<rparr>;
                          q4 = q3\<lparr>triggerFilterTime := 0\<rparr>
                      in q4\<lparr>currentStatus := (currentStatus q4)\<lparr>hasSync := True\<rparr>\<rparr>)
                   else
                     (let q1 =
                        (if toothCurrentCount s4 \<noteq> ucast (triggerTeeth cfg)
                            \<and> 2 < startRevolutions (currentStatus s4)
                         then s4\<lparr>currentStatus := (currentStatus s4)
                                   \<lparr>syncLossCounter := syncLossCounter (currentStatus s4) + 1\<rparr>\<rparr>
                         else s4)
                      in if useResync cfg = 1
                         then q1\<lparr>toothCurrentCount := ucast (triggerTeeth cfg)\<rparr>
                         else q1))
            in s5\<lparr>revolutionOne := True\<rparr>)
         else s2\<lparr>triggerSecFilterTime := drop_bit 1 (revolutionTime s2)\<rparr>)"

definition getRPM_DualWheel :: "config \<Rightarrow> decoder \<Rightarrow> uint16 \<times> decoder" where
  "getRPM_DualWheel cfg s =
     (if hasSync (currentStatus s) then
        (if RPM (currentStatus s) < crankRPM (currentStatus s)
         then crankingGetRPM cfg (triggerTeeth cfg) (TrigSpeed cfg = CAM_SPEED) s
         else stdGetRPM cfg (TrigSpeed cfg = CAM_SPEED) s)
      else (0, s))"

definition getRPM_missingTooth :: "config \<Rightarrow> decoder \<Rightarrow> uint16 \<times> decoder" where
  "getRPM_missingTooth cfg s =
     (if RPM (currentStatus s) < crankRPM (currentStatus s) then
        (if toothCurrentCount s \<noteq> 1
         then crankingGetRPM cfg (triggerTeeth cfg) (TrigSpeed cfg = CAM_SPEED) s
         else (RPM (currentStatus s), s))
      else stdGetRPM cfg (TrigSpeed cfg = CAM_SPEED) s)"

section \<open>Ignition end teeth\<close>

text \<open>
  Modelled from the spec: \<^verbatim>\<open>nudge\<close> of the absent maths header. The spec brings
  the tooth index into the valid tooth-count range and wraps with one explicit addition
  or subtraction, not a modulo, to keep the cost bounded. The call site hands the tooth
  range over a second time as the amount to move by: a value below the lower bound is
  moved up by the amount, a value above the upper bound is moved down by it, once.
\<close>

definition nudge :: "int16 \<Rightarrow> int16 \<Rightarrow> int16 \<Rightarrow> int16 \<Rightarrow> int16" where
  "nudge lo hi val nudgeAmount =
     (if val <s lo then val + nudgeAmount
      else if hi <s val then val - nudgeAmount
      else val)"

definition clampToToothCount :: "config \<Rightarrow> int16 \<Rightarrow> uint8 \<Rightarrow> uint16" where
  "clampToToothCount cfg toothNum toothAdder =
     (let toothRange = ucast (triggerTeeth cfg) + ucast toothAdder
      in nudge 1 toothRange toothNum toothRange)"

definition clampToActualTeeth :: "config \<Rightarrow> decoder \<Rightarrow> uint16 \<Rightarrow> uint8 \<Rightarrow> uint16" where
  "clampToActualTeeth cfg s toothNum toothAdder =
     (let toothNum' =
        (if triggerActualTeeth s < toothNum \<and> toothNum \<le> ucast (triggerTeeth cfg)
         then triggerActualTeeth s else toothNum)
      in min toothNum' (triggerActualTeeth s + ucast toothAdder))"

text \<open>
  The quotient is the division of C on \<^verbatim>\<open>int16_t\<close>. A tooth angle 0 would divide by
  zero; \<open>sdiv16\<close> then gives 0, and the theorem on the range of the end teeth takes the
  tooth angle as positive.
\<close>

definition calcEndTeeth_missingTooth :: "config \<Rightarrow> decoder \<Rightarrow> int16 \<Rightarrow> uint8 \<Rightarrow> uint16" where
  "calcEndTeeth_missingTooth cfg s endAngle toothAdder =
     (let tempEndTooth0 = sdiv16 (endAngle - triggerAngle cfg) (triggerToothAngle s);
          tempEndTooth = (if 12 < triggerTeeth cfg then tempEndTooth0 - 1 else tempEndTooth0)
      in clampToActualTeeth cfg s (clampToToothCount cfg tempEndTooth toothAdder) toothAdder)"

definition calcEndTeeth_DualWheel :: "config \<Rightarrow> decoder \<Rightarrow> int16 \<Rightarrow> uint8 \<Rightarrow> uint16" where
  "calcEndTeeth_DualWheel cfg s ignitionAngle toothAdder =
     (let tempEndTooth = sdiv16 (ignitionAngle - triggerAngle cfg) (triggerToothAngle s)
      in clampToToothCount cfg tempEndTooth toothAdder)"

section \<open>Frame of the revolution-time fields\<close>

text \<open>
  \<open>same_revolution_fields s s'\<close>: the stored revolution time and its two derivatives are
  in \<open>s'\<close> what they are in \<open>s\<close>.
\<close>

definition same_revolution_fields :: "decoder \<Rightarrow> decoder \<Rightarrow> bool" where
  "same_revolution_fields s s' \<longleftrightarrow>
     revolutionTime s' = revolutionTime s \<and> microsPerDegree s' = microsPerDegree s
     \<and> degreesPerMicro s' = degreesPerMicro s"

section \<open>Concrete configurations and states\<close>

text \<open>
  The globals as the C start-up code leaves them: every one is zero. The decoder's own
  initialisers are all 0, and globals without an initialiser are zeroed.
\<close>

definition initial_statuses :: statuses where
  "initial_statuses =
     \<lparr>hasSync = False, halfSync = False, RPM = 0, crankRPM = 0, startRevolutions = 0,
      syncLossCounter = 0, vvt1Angle = 0, vvt2Angle = 0, engineCrank = False\<rparr>"

definition initial_decoder :: decoder where
  "initial_decoder =
     \<lparr>curTime = 0, curGap = 0, curTime2 = 0, curGap2 = 0, curTime3 = 0, curGap3 = 0,
      targetGap2 = 0, toothCurrentCount = 0, toothLastToothTime = 0,
      toothLastSecToothTime = 0, toothLastThirdToothTime = 0,
      toothLastMinusOneToothTime = 0, toothLastMinusOneSecToothTime = 0,
      toothOneTime = 0, toothOneMinusOneTime = 0, revolutionOne = False,
      secondaryToothCount = 0, thirdToothCount = 0, triggerActualTeeth = 0,
      triggerFilterTime = 0, triggerSecFilterTime = 0, triggerThirdFilterTime = 0,
      decoderState = 0, revolutionTime = 0, microsPerDegree = 0, degreesPerMicro = 0,
      triggerToothAngle = 0, elapsedTime = 0, lastCrankAngleCalc = 0,
      ignition1EndTooth = 0, ignition2EndTooth = 0, ignition3EndTooth = 0,
      ignition4EndTooth = 0, ignition5EndTooth = 0, ignition6EndTooth = 0,
      ignition7EndTooth = 0, ignition8EndTooth = 0, fixedCrankingOverride = 0,
      adjustCrankAngle_calls = [], currentStatus = initial_statuses\<rparr>"

text \<open>
  A dual wheel with a 60-tooth primary at crank speed and sequential ignition: the tooth
  angle is 6 degrees and the angle range is 720 degrees.
\<close>

definition dualWheel_60 :: config where
  "dualWheel_60 =
     \<lparr>triggerTeeth = 60, triggerMissingTeeth = 0, triggerAngle = 0, TrigSpeed = CRANK_SPEED,
      trigPatternSec = SEC_TRIGGER_SINGLE, triggerFilter = 0, StgCycles = 0, useResync = 1,
      perToothIgn = False, sparkMode = IGN_MODE_SEQUENTIAL, vvtEnabled = 0,
      vvtModeClosedLoop = False, vvtCL0DutyAng = 0, vvt2CL0DutyAng = 0, ANGLEFILTER_VVT = 0,
      MAX_RPM = 18000, CRANK_ANGLE_MAX = 720, IGN_CHANNELS = 4\<rparr>"

text \<open>
  A dual wheel with a 4-tooth primary at crank speed, tooth 1 at 100 degrees, ignition
  not sequential: the tooth angle is 90 degrees and the angle range is 360 degrees.
\<close>

definition dualWheel_4 :: config where
  "dualWheel_4 =
     \<lparr>triggerTeeth = 4, triggerMissingTeeth = 0, triggerAngle = 100, TrigSpeed = CRANK_SPEED,
      trigPatternSec = SEC_TRIGGER_SINGLE, triggerFilter = 0, StgCycles = 0, useResync = 1,
      perToothIgn = False, sparkMode = IGN_MODE_OTHER, vvtEnabled = 0,
      vvtModeClosedLoop = False, vvtCL0DutyAng = 0, vvt2CL0DutyAng = 0, ANGLEFILTER_VVT = 0,
      MAX_RPM = 18000, CRANK_ANGLE_MAX = 360, IGN_CHANNELS = 4\<rparr>"

text \<open>
  A 36-1 missing-tooth wheel at crank speed with a single-tooth cam signal: the tooth
  angle is 10 degrees and 35 teeth are present.
\<close>

definition missingTooth_36_1 :: config where
  "missingTooth_36_1 =
     \<lparr>triggerTeeth = 36, triggerMissingTeeth = 1, triggerAngle = 0, TrigSpeed = CRANK_SPEED,
      trigPatternSec = SEC_TRIGGER_SINGLE, triggerFilter = 0, StgCycles = 0, useResync = 1,
      perToothIgn = False, sparkMode = IGN_MODE_SEQUENTIAL, vvtEnabled = 0,
      vvtModeClosedLoop = False, vvtCL0DutyAng = 0, vvt2CL0DutyAng = 0, ANGLEFILTER_VVT = 0,
      MAX_RPM = 18000, CRANK_ANGLE_MAX = 720, IGN_CHANNELS = 4\<rparr>"

text \<open>
  A running engine at 3000 RPM: one revolution takes 20000 microseconds, the last edge
  of every input was seen at 5000 microseconds and every filter is 1000 microseconds.
\<close>

definition running_3000 :: decoder where
  "running_3000 =
     initial_decoder
       \<lparr>toothCurrentCount := 10, toothLastToothTime := 5000, toothLastSecToothTime := 5000,
        toothLastThirdToothTime := 5000, triggerActualTeeth := 35, triggerFilterTime := 1000,
        triggerSecFilterTime := 1000, triggerThirdFilterTime := 1000,
        revolutionTime := 20000, microsPerDegree := 14222, degreesPerMicro := 590,
        triggerToothAngle := 10,
        currentStatus := initial_statuses\<lparr>hasSync := True, RPM := 3000, crankRPM := 400,
                                            startRevolutions := 50\<rparr>\<rparr>"

section \<open>Signed and unsigned readings of words\<close>

lemma nonneg_above_int16_min: "0 \<le> k \<Longrightarrow> - (2 ^ 15) \<le> (k :: int)"
  by simp


lemma uint_ucast_8_16: "uint (ucast (t :: uint8) :: uint16) = uint t"
  by (simp add: uint_up_ucast is_up)



lemma sint_add16:
  fixes a b :: int16
  assumes "- 32768 \<le> sint a + sint b" and "sint a + sint b < 32768"
  shows "sint (a + b) = sint a + sint b"
proof -
  have "signed_take_bit 15 (sint a + sint b) = sint a + sint b"
    using assms by (intro signed_take_bit_int_eq_self) simp_all
  then show ?thesis
    by (simp add: sint_word_ariths)
qed


lemma sint_small_uint16:
  fixes e :: uint16
  assumes "uint e < 32768"
  shows "sint e = uint e"
proof -
  have "0 \<le> uint e"
    by simp
  then have "- (2 ^ 15) \<le> uint e"
    by (rule nonneg_above_int16_min)
  then have "signed_take_bit 15 (uint e) = uint e"
    using assms by (intro signed_take_bit_int_eq_self) simp_all
  then show ?thesis
    by (simp add: sint_uint)
qed

section \<open>Noise rejection\<close>

lemma triggerPri_DualWheel_rejected:
  "now - toothLastToothTime s < triggerFilterTime s \<Longrightarrow>
     triggerPri_DualWheel cfg now s = s\<lparr>curTime := now, curGap := now - toothLastToothTime s\<rparr>"
  by (simp add: triggerPri_DualWheel_def Let_def not_le [symmetric])

lemma triggerSec_DualWheel_rejected:
  "now - toothLastSecToothTime s < triggerSecFilterTime s \<Longrightarrow>
     triggerSec_DualWheel cfg now now' now'' s =
       s\<lparr>curTime2 := now, curGap2 := now - toothLastSecToothTime s,
         triggerSecFilterTime := drop_bit 1 (revolutionTime s)\<rparr>"
  by (simp add: triggerSec_DualWheel_def Let_def not_le [symmetric])

lemma triggerSec_missingTooth_rejected:
  "toothLastSecToothTime s \<noteq> 0 \<Longrightarrow> now - toothLastSecToothTime s < triggerSecFilterTime s \<Longrightarrow>
     triggerSec_missingTooth cfg now now' s =
       s\<lparr>curTime2 := now, curGap2 := now - toothLastSecToothTime s\<rparr>"
  by (simp add: triggerSec_missingTooth_def Let_def not_le [symmetric])

lemma triggerThird_missingTooth_rejected:
  "toothLastThirdToothTime s \<noteq> 0 \<Longrightarrow>
   now - toothLastThirdToothTime s < triggerThirdFilterTime s \<Longrightarrow>
     triggerThird_missingTooth cfg now now' s =
       s\<lparr>curTime3 := now, curGap3 := now - toothLastThirdToothTime s\<rparr>"
  by (simp add: triggerThird_missingTooth_def Let_def not_le [symmetric])

text \<open>
  C1, as the code has it. An edge whose gap since the stored last edge of its input is
  strictly below the input's filter duration leaves the tooth index, every tooth
  timestamp and every counter as they are: the handler writes its scratch pair
  (\<open>curTime\<close> and \<open>curGap\<close>, or those of its input) and nothing else, with one exception.
  The dual-wheel secondary handler also resets the secondary filter duration to half
  the stored revolution time. For the missing-tooth secondary and tertiary handlers the
  stored last edge is not 0, that is, an edge has been seen before.
\<close>

theorem rejected_edge_frame:
  "(now - toothLastToothTime s < triggerFilterTime s \<longrightarrow>
      triggerPri_DualWheel cfg now s =
        s\<lparr>curTime := now, curGap := now - toothLastToothTime s\<rparr>)
   \<and> (now - toothLastSecToothTime s < triggerSecFilterTime s \<longrightarrow>
      triggerSec_DualWheel cfg now now' now'' s =
        s\<lparr>curTime2 := now, curGap2 := now - toothLastSecToothTime s,
          triggerSecFilterTime := drop_bit 1 (revolutionTime s)\<rparr>)
   \<and> (toothLastSecToothTime s \<noteq> 0
        \<and> now - toothLastSecToothTime s < triggerSecFilterTime s \<longrightarrow>
      triggerSec_missingTooth cfg now now' s =
        s\<lparr>curTime2 := now, curGap2 := now - toothLastSecToothTime s\<rparr>)
   \<and> (toothLastThirdToothTime s \<noteq> 0
        \<and> now - toothLastThirdToothTime s < triggerThirdFilterTime s \<longrightarrow>
      triggerThird_missingTooth cfg now now' s =
        s\<lparr>curTime3 := now, curGap3 := now - toothLastThirdToothTime s\<rparr>)"
  by (simp add: triggerPri_DualWheel_rejected triggerSec_DualWheel_rejected
      triggerSec_missingTooth_rejected triggerThird_missingTooth_rejected)

theorem rejected_edge_frame_witness:
  "triggerPri_DualWheel dualWheel_60 5500 running_3000 =
     running_3000\<lparr>curTime := 5500, curGap := 500\<rparr>
   \<and> triggerSec_DualWheel dualWheel_60 5500 5501 5502 running_3000 =
     running_3000\<lparr>curTime2 := 5500, curGap2 := 500, triggerSecFilterTime := 10000\<rparr>
   \<and> triggerSec_missingTooth dualWheel_60 5500 5501 running_3000 =
     running_3000\<lparr>curTime2 := 5500, curGap2 := 500\<rparr>
   \<and> triggerThird_missingTooth dualWheel_60 5500 5501 running_3000 =
     running_3000\<lparr>curTime3 := 5500, curGap3 := 500\<rparr>"
  using rejected_edge_frame [of 5500 running_3000 dualWheel_60 5501 5502]
  by (simp add: running_3000_def initial_decoder_def)

text \<open>
  C1 as stated fails: with a gap of 500 microseconds under a filter of 1000, the
  dual-wheel secondary handler changes the secondary filter duration.
\<close>

theorem rejected_edge_changes_filter_counterexample:
  "(5500 :: uint32) - toothLastSecToothTime running_3000 < triggerSecFilterTime running_3000
   \<and> triggerSecFilterTime (triggerSec_DualWheel dualWheel_60 5500 5501 5502 running_3000)
       \<noteq> triggerSecFilterTime running_3000"
  by (simp add: triggerSec_DualWheel_def Let_def running_3000_def initial_decoder_def)

section \<open>Rounding of the fixed-point conversions\<close>

lemma unat_ucast_16_32: "unat (ucast (w :: uint16) :: uint32) = unat w"
proof -
  have "unat w < 2 ^ 32"
    using unsigned_less [of w, where ?'a = nat] by simp
  then show ?thesis
    by (simp add: unsigned_ucast_eq take_bit_nat_eq_self)
qed

lemma unat_RSHIFT_ROUND_15:
  assumes "unat n + 2 ^ 14 < (2 :: nat) ^ 32"
  shows "unat (RSHIFT_ROUND n 15) = (unat n + 2 ^ 14) div 2 ^ 15"
proof -
  have "unat (n + 16384) = unat n + 16384"
    using assms by (simp add: unat_word_ariths)
  then show ?thesis
    by (simp add: RSHIFT_ROUND_def drop_bit_eq_div unat_div)
qed

lemma unat_RSHIFT_ROUND_8:
  assumes "unat n + 2 ^ 7 < (2 :: nat) ^ 32"
  shows "unat (RSHIFT_ROUND n 8) = (unat n + 2 ^ 7) div 2 ^ 8"
proof -
  have "unat (n + 128) = unat n + 128"
    using assms by (simp add: unat_word_ariths)
  then show ?thesis
    by (simp add: RSHIFT_ROUND_def drop_bit_eq_div unat_div)
qed

lemma nearest_half_up:
  fixes x h :: nat
  assumes "0 < h"
  shows "is_nearest_integer (int ((x + h) div (2 * h))) (int x) (int (2 * h))"
proof -
  define r where "r = (x + h) div (2 * h)"
  have a: "r * (2 * h) \<le> x + h"
    unfolding r_def by simp
  have "(x + h) mod (2 * h) < 2 * h"
    using assms by simp
  then have b: "x + h < r * (2 * h) + 2 * h"
    unfolding r_def using div_mult_mod_eq [of "x + h" "2 * h"] by linarith
  have "int r * int (2 * h) \<le> int x + int h"
    using a by (simp flip: of_nat_mult of_nat_add)
  moreover have "int x + int h < int r * int (2 * h) + 2 * int h"
    using b by (simp flip: of_nat_mult of_nat_add)
  ultimately have "2 * \<bar>int r * int (2 * h) - int x\<bar> \<le> int (2 * h)"
    by (simp add: abs_le_iff)
  then show ?thesis
    unfolding is_nearest_integer_def r_def .
qed

lemma timeToAngle_unat:
  assumes "unat time * unat (degreesPerMicro s) + 2 ^ 14 < (2 :: nat) ^ 31"
  shows "unat (timeToAngleDegPerMicroSec s time)
           = (unat time * unat (degreesPerMicro s) + 2 ^ 14) div 2 ^ 15"
proof -
  let ?p = "time * ucast (degreesPerMicro s) :: uint32"
  have p: "unat ?p = unat time * unat (degreesPerMicro s)"
    using assms by (simp add: unat_word_ariths unat_ucast_16_32)
  have "unat (RSHIFT_ROUND ?p 15) = (unat ?p + 2 ^ 14) div 2 ^ 15"
    using assms p by (intro unat_RSHIFT_ROUND_15) simp
  moreover have "(unat time * unat (degreesPerMicro s) + 2 ^ 14) div 2 ^ 15 < 2 ^ 16"
    using assms by simp
  ultimately show ?thesis
    using p by (simp add: timeToAngleDegPerMicroSec_def unsigned_ucast_eq take_bit_nat_eq_self)
qed

lemma angleToTime_unat:
  assumes "unat angle * unat (microsPerDegree s) + 2 ^ 7 < (2 :: nat) ^ 32"
  shows "unat (angleToTimeMicroSecPerDegree s angle)
           = (unat angle * unat (microsPerDegree s) + 2 ^ 7) div 2 ^ 8"
proof -
  let ?p = "ucast angle * microsPerDegree s :: uint32"
  have p: "unat ?p = unat angle * unat (microsPerDegree s)"
    using assms by (simp add: unat_word_ariths unat_ucast_16_32)
  have "unat (RSHIFT_ROUND ?p 8) = (unat ?p + 2 ^ 7) div 2 ^ 8"
    using assms p by (intro unat_RSHIFT_ROUND_8) simp
  then show ?thesis
    using p by (simp add: angleToTimeMicroSecPerDegree_def)
qed

text \<open>
  C9, as the code has it. While the 32-bit product does not overflow, the conversions
  round to nearest: if \<open>time * degreesPerMicro + 2 ^ 14\<close> is below \<open>2 ^ 31\<close>, then
  \<open>timeToAngleDegPerMicroSec time\<close> is a nearest integer to
  \<open>time * degreesPerMicro / 2 ^ 15\<close>; if \<open>angle * microsPerDegree + 2 ^ 7\<close> is below
  \<open>2 ^ 32\<close>, then \<open>angleToTimeMicroSecPerDegree angle\<close> is a nearest integer to
  \<open>angle * microsPerDegree / 2 ^ 8\<close>.
\<close>

theorem conversions_round_to_nearest:
  "(unat time * unat (degreesPerMicro s) + 2 ^ 14 < (2 :: nat) ^ 31 \<longrightarrow>
      is_nearest_integer (uint (timeToAngleDegPerMicroSec s time))
        (uint time * uint (degreesPerMicro s)) (2 ^ 15))
   \<and> (unat angle * unat (microsPerDegree s) + 2 ^ 7 < (2 :: nat) ^ 32 \<longrightarrow>
      is_nearest_integer (uint (angleToTimeMicroSecPerDegree s angle))
        (uint angle * uint (microsPerDegree s)) (2 ^ 8))"
proof (intro conjI impI)
  assume h: "unat time * unat (degreesPerMicro s) + 2 ^ 14 < (2 :: nat) ^ 31"
  have "is_nearest_integer
          (int ((unat time * unat (degreesPerMicro s) + 2 ^ 14) div (2 * 2 ^ 14)))
          (int (unat time * unat (degreesPerMicro s))) (int (2 * 2 ^ 14))"
    by (rule nearest_half_up) simp
  then show "is_nearest_integer (uint (timeToAngleDegPerMicroSec s time))
        (uint time * uint (degreesPerMicro s)) (2 ^ 15)"
    using timeToAngle_unat [OF h] by (simp only: uint_nat of_nat_mult) simp
next
  assume h: "unat angle * unat (microsPerDegree s) + 2 ^ 7 < (2 :: nat) ^ 32"
  have "is_nearest_integer
          (int ((unat angle * unat (microsPerDegree s) + 2 ^ 7) div (2 * 2 ^ 7)))
          (int (unat angle * unat (microsPerDegree s))) (int (2 * 2 ^ 7))"
    by (rule nearest_half_up) simp
  then show "is_nearest_integer (uint (angleToTimeMicroSecPerDegree s angle))
        (uint angle * uint (microsPerDegree s)) (2 ^ 8)"
    using angleToTime_unat [OF h] by (simp only: uint_nat of_nat_mult) simp
qed

theorem conversions_round_to_nearest_witness:
  "is_nearest_integer (uint (timeToAngleDegPerMicroSec running_3000 1000)) (1000 * 590) (2 ^ 15)
   \<and> is_nearest_integer (uint (angleToTimeMicroSecPerDegree running_3000 10)) (10 * 14222)
        (2 ^ 8)"
  using conversions_round_to_nearest [of 1000 running_3000 10]
  by (simp add: running_3000_def initial_decoder_def)

text \<open>
  C9 as stated fails for long elapsed times: at 8 degrees per microsecond in 1.15 fixed
  point (the slowest speed the header names) and an elapsed time of \<open>2 ^ 29\<close>
  microseconds the product is \<open>2 ^ 32\<close> and wraps to 0, so the function returns 0, which
  is not a nearest integer to \<open>2 ^ 32 / 2 ^ 15\<close>.
\<close>

theorem conversions_overflow_counterexample:
  "\<not> is_nearest_integer
       (uint (timeToAngleDegPerMicroSec (initial_decoder\<lparr>degreesPerMicro := 8\<rparr>) 536870912))
       (uint (536870912 :: uint32) * uint (8 :: uint16)) (2 ^ 15)"
  by (simp add: timeToAngleDegPerMicroSec_def RSHIFT_ROUND_def is_nearest_integer_def
      initial_decoder_def)

section \<open>The revolution time and its derivatives\<close>

lemma SetRevolutionTime_same:
  "revTime = revolutionTime s \<Longrightarrow> SetRevolutionTime revTime s = (False, s)"
  by (simp add: SetRevolutionTime_def)

lemma SetRevolutionTime_differs:
  "revTime \<noteq> revolutionTime s \<Longrightarrow>
     SetRevolutionTime revTime s =
       (True, s\<lparr>revolutionTime := revTime,
                microsPerDegree := div360 (push_bit 8 revTime),
                degreesPerMicro := ucast (UDIV_ROUND_CLOSEST (push_bit 15 360) revTime)\<rparr>)"
  by (simp add: SetRevolutionTime_def Let_def)

lemma SetRevolutionTime_match:
  "derivatives_match s \<Longrightarrow> derivatives_match (snd (SetRevolutionTime revTime s))"
  by (cases "revTime = revolutionTime s")
     (simp_all add: SetRevolutionTime_same SetRevolutionTime_differs derivatives_match_def)

lemma getCrankAngle_missingTooth_state:
  "snd (getCrankAngle_missingTooth cfg now s) =
     s\<lparr>lastCrankAngleCalc := now, elapsedTime := now - toothLastToothTime s\<rparr>"
  by (simp add: getCrankAngle_missingTooth_def Let_def)

lemma getCrankAngle_DualWheel_state:
  "snd (getCrankAngle_DualWheel cfg now s) =
     s\<lparr>lastCrankAngleCalc := now, elapsedTime := now - toothLastToothTime s\<rparr>"
  by (simp add: getCrankAngle_DualWheel_def Let_def)

lemma same_rev_refl: "same_revolution_fields s s"
  by (simp add: same_revolution_fields_def)

lemma same_rev_Let:
  assumes "same_revolution_fields s e"
    and "\<And>x. same_revolution_fields s x \<Longrightarrow> same_revolution_fields s (f x)"
  shows "same_revolution_fields s (Let e f)"
  using assms by simp

lemma same_rev_Let_angle:
  fixes e :: int16
  assumes "\<And>x. same_revolution_fields s (f x)"
  shows "same_revolution_fields s (Let e f)"
  using assms by simp

lemma same_rev_if:
  assumes "c \<Longrightarrow> same_revolution_fields s a" and "\<not> c \<Longrightarrow> same_revolution_fields s b"
  shows "same_revolution_fields s (if c then a else b)"
  using assms by simp

lemma same_rev_getCrankAngle_missingTooth:
  "same_revolution_fields s x \<Longrightarrow>
   same_revolution_fields s (snd (getCrankAngle_missingTooth cfg now x))"
  by (simp add: getCrankAngle_missingTooth_state same_revolution_fields_def)

lemma same_rev_triggerRecordVVT1Angle:
  "same_revolution_fields s x \<Longrightarrow> same_revolution_fields s (triggerRecordVVT1Angle cfg now x)"
  using same_rev_getCrankAngle_missingTooth [of s x cfg now]
  by (simp add: triggerRecordVVT1Angle_def Let_def split_def same_revolution_fields_def)

lemma same_rev_checkPerToothTiming:
  "same_revolution_fields s x \<Longrightarrow> same_revolution_fields s (checkPerToothTiming cfg a t x)"
  by (simp add: checkPerToothTiming_def adjustCrankAngle_def same_revolution_fields_def)

lemma same_rev_setFilter:
  "same_revolution_fields s x \<Longrightarrow> same_revolution_fields s (setFilter cfg g x)"
  by (simp add: setFilter_def same_revolution_fields_def)

lemma same_rev_update:
  assumes "same_revolution_fields s x"
  shows "same_revolution_fields s (x\<lparr>curTime := v1\<rparr>)"
    and "same_revolution_fields s (x\<lparr>curGap := v1\<rparr>)"
    and "same_revolution_fields s (x\<lparr>toothCurrentCount := v2\<rparr>)"
    and "same_revolution_fields s (x\<lparr>decoderState := v3\<rparr>)"
    and "same_revolution_fields s (x\<lparr>toothLastMinusOneToothTime := v1\<rparr>)"
    and "same_revolution_fields s (x\<lparr>toothLastToothTime := v1\<rparr>)"
    and "same_revolution_fields s (x\<lparr>revolutionOne := v4\<rparr>)"
    and "same_revolution_fields s (x\<lparr>toothOneMinusOneTime := v1\<rparr>)"
    and "same_revolution_fields s (x\<lparr>toothOneTime := v1\<rparr>)"
    and "same_revolution_fields s (x\<lparr>currentStatus := v5\<rparr>)"
  using assms by (simp_all add: same_revolution_fields_def)

lemma triggerPri_DualWheel_same_rev:
  "same_revolution_fields s (triggerPri_DualWheel cfg now s)"
  unfolding triggerPri_DualWheel_def
  by (intro same_rev_Let same_rev_Let_angle same_rev_if same_rev_checkPerToothTiming
        same_rev_setFilter same_rev_update same_rev_refl)

lemma triggerSec_DualWheel_same_rev:
  "same_revolution_fields s (triggerSec_DualWheel cfg now now' now'' s)"
  by (simp add: triggerSec_DualWheel_def same_revolution_fields_def Let_def)

lemma triggerSec_missingTooth_same_rev:
  "same_revolution_fields s (triggerSec_missingTooth cfg now now' s)"
  by (cases "trigPatternSec cfg")
     (simp_all add: triggerSec_missingTooth_def Let_def same_rev_triggerRecordVVT1Angle
        same_rev_refl same_revolution_fields_def
        same_rev_triggerRecordVVT1Angle [unfolded same_revolution_fields_def])

lemma triggerThird_missingTooth_same_rev:
  "same_revolution_fields s (triggerThird_missingTooth cfg now now' s)"
  by (simp add: triggerThird_missingTooth_def same_revolution_fields_def Let_def split_def
      getCrankAngle_missingTooth_state)

lemma UpdateRevolutionTimeFromTeeth_match:
  "derivatives_match s \<Longrightarrow> derivatives_match (snd (UpdateRevolutionTimeFromTeeth c s))"
  by (simp add: UpdateRevolutionTimeFromTeeth_def SetRevolutionTime_match)

lemma stdGetRPM_state:
  "snd (stdGetRPM cfg c s) = snd (UpdateRevolutionTimeFromTeeth c s)"
  by (simp add: stdGetRPM_def split: prod.splits bool.splits)

lemma crankingGetRPM_state:
  "snd (crankingGetRPM cfg n c s) = s \<or>
   (\<exists>t. snd (crankingGetRPM cfg n c s) = snd (SetRevolutionTime t s))"
  by (auto simp add: crankingGetRPM_def split: prod.splits bool.splits) (metis snd_conv)+

lemma stdGetRPM_match:
  "derivatives_match s \<Longrightarrow> derivatives_match (snd (stdGetRPM cfg c s))"
  by (simp add: stdGetRPM_state UpdateRevolutionTimeFromTeeth_match)

lemma crankingGetRPM_match:
  "derivatives_match s \<Longrightarrow> derivatives_match (snd (crankingGetRPM cfg n c s))"
  using crankingGetRPM_state [of cfg n c s] SetRevolutionTime_match [of s]
  by auto

text \<open>
  C3. \<open>SetRevolutionTime\<close> called with the stored revolution time changes nothing and
  returns false. Called with a different time it returns true and writes the revolution
  time and both derivatives in the same call, so that the derivatives match the stored
  time afterwards. It is the only writer: the RPM functions change the three fields only
  through it, so they keep the derivatives matching, and the edge handlers and the
  crank-angle functions leave the three fields as they are.
\<close>

theorem SetRevolutionTime_updates_together:
  "(revTime = revolutionTime s \<longrightarrow> SetRevolutionTime revTime s = (False, s))
   \<and> (revTime \<noteq> revolutionTime s \<longrightarrow>
        SetRevolutionTime revTime s =
          (True, s\<lparr>revolutionTime := revTime,
                   microsPerDegree := div360 (push_bit 8 revTime),
                   degreesPerMicro := ucast (UDIV_ROUND_CLOSEST (push_bit 15 360) revTime)\<rparr>)
        \<and> derivatives_match (snd (SetRevolutionTime revTime s)))
   \<and> (derivatives_match s \<longrightarrow>
        derivatives_match (snd (SetRevolutionTime revTime s))
        \<and> derivatives_match (snd (stdGetRPM cfg isCam s))
        \<and> derivatives_match (snd (crankingGetRPM cfg totalTeeth isCam s))
        \<and> derivatives_match (snd (getRPM_DualWheel cfg s))
        \<and> derivatives_match (snd (getRPM_missingTooth cfg s)))
   \<and> same_revolution_fields s (triggerPri_DualWheel cfg now s)
   \<and> same_revolution_fields s (triggerSec_DualWheel cfg now now' now'' s)
   \<and> same_revolution_fields s (triggerSec_missingTooth cfg now now' s)
   \<and> same_revolution_fields s (triggerThird_missingTooth cfg now now' s)
   \<and> same_revolution_fields s (snd (getCrankAngle_DualWheel cfg now s))
   \<and> same_revolution_fields s (snd (getCrankAngle_missingTooth cfg now s))"
proof -
  have differs: "derivatives_match (snd (SetRevolutionTime revTime s))"
    if "revTime \<noteq> revolutionTime s"
    using that by (simp add: SetRevolutionTime_differs derivatives_match_def)
  have dual: "derivatives_match (snd (getRPM_DualWheel cfg s))" if "derivatives_match s"
    using that by (simp add: getRPM_DualWheel_def stdGetRPM_match crankingGetRPM_match)
  have missing: "derivatives_match (snd (getRPM_missingTooth cfg s))" if "derivatives_match s"
    using that by (simp add: getRPM_missingTooth_def stdGetRPM_match crankingGetRPM_match)
  have angles: "same_revolution_fields s (snd (getCrankAngle_DualWheel cfg now s))"
    "same_revolution_fields s (snd (getCrankAngle_missingTooth cfg now s))"
    by (simp_all add: getCrankAngle_DualWheel_state getCrankAngle_missingTooth_state
        same_revolution_fields_def)
  show ?thesis
    using differs dual missing angles
    by (simp add: SetRevolutionTime_same SetRevolutionTime_differs SetRevolutionTime_match
        stdGetRPM_match crankingGetRPM_match triggerPri_DualWheel_same_rev
        triggerSec_DualWheel_same_rev triggerSec_missingTooth_same_rev
        triggerThird_missingTooth_same_rev)
qed

theorem SetRevolutionTime_updates_together_witness:
  "SetRevolutionTime 20000 running_3000 = (False, running_3000)
   \<and> SetRevolutionTime 10000 running_3000 =
       (True, running_3000\<lparr>revolutionTime := 10000, microsPerDegree := 7111,
                            degreesPerMicro := 1180\<rparr>)
   \<and> derivatives_match running_3000
   \<and> derivatives_match (snd (SetRevolutionTime 10000 running_3000))"
  using SetRevolutionTime_updates_together [of 20000 running_3000]
    SetRevolutionTime_updates_together [of 10000 running_3000]
  by (simp add: running_3000_def initial_decoder_def div360_def UDIV_ROUND_CLOSEST_def
      derivatives_match_def)

section \<open>The first edge of the secondary and tertiary inputs\<close>

lemma triggerRecordVVT1Angle_sec_fields:
  "curGap2 (triggerRecordVVT1Angle cfg now s) = curGap2 s"
  "curTime2 (triggerRecordVVT1Angle cfg now s) = curTime2 s"
  "secondaryToothCount (triggerRecordVVT1Angle cfg now s) = secondaryToothCount s"
  "revolutionOne (triggerRecordVVT1Angle cfg now s) = revolutionOne s"
  "triggerSecFilterTime (triggerRecordVVT1Angle cfg now s) = triggerSecFilterTime s"
  by (simp_all add: triggerRecordVVT1Angle_def Let_def split_def getCrankAngle_missingTooth_def)

lemma triggerSec_missingTooth_first_edge_seeds:
  assumes "toothLastSecToothTime s = 0"
  shows "curGap2 (triggerSec_missingTooth cfg now now' s) = 0"
    and "toothLastSecToothTime (triggerSec_missingTooth cfg now now' s) = now"
  using assms
  by (cases "trigPatternSec cfg";
      simp add: triggerSec_missingTooth_def Let_def triggerRecordVVT1Angle_sec_fields)+

lemma triggerSec_missingTooth_first_edge_filtered:
  assumes "toothLastSecToothTime s = 0" and "triggerSecFilterTime s \<noteq> 0"
  shows "triggerSec_missingTooth cfg now now' s =
           s\<lparr>curTime2 := now, curGap2 := 0, toothLastSecToothTime := now\<rparr>"
  using assms by (simp add: triggerSec_missingTooth_def Let_def word_le_0_iff)

lemma triggerSec_missingTooth_first_edge_single:
  assumes "toothLastSecToothTime s = 0" and "triggerSecFilterTime s = 0"
    and "trigPatternSec cfg = SEC_TRIGGER_SINGLE"
  shows "secondaryToothCount (triggerSec_missingTooth cfg now now' s) = secondaryToothCount s + 1"
    and "revolutionOne (triggerSec_missingTooth cfg now now' s)"
    and "triggerSecFilterTime (triggerSec_missingTooth cfg now now' s) = 0"
  using assms
  by (simp_all add: triggerSec_missingTooth_def Let_def triggerRecordVVT1Angle_sec_fields)

lemma triggerThird_missingTooth_first_edge_seeds:
  assumes "toothLastThirdToothTime s = 0"
  shows "curGap3 (triggerThird_missingTooth cfg now now' s) = 0"
    and "toothLastThirdToothTime (triggerThird_missingTooth cfg now now' s) = now"
  using assms
  by (simp_all add: triggerThird_missingTooth_def Let_def split_def getCrankAngle_missingTooth_def)

lemma triggerThird_missingTooth_first_edge_filtered:
  assumes "toothLastThirdToothTime s = 0" and "triggerThirdFilterTime s \<noteq> 0"
  shows "triggerThird_missingTooth cfg now now' s =
           s\<lparr>curTime3 := now, curGap3 := 0, toothLastThirdToothTime := now\<rparr>"
  using assms by (simp add: triggerThird_missingTooth_def Let_def word_le_0_iff)

lemma triggerThird_missingTooth_first_edge_accepted:
  assumes "toothLastThirdToothTime s = 0" and "triggerThirdFilterTime s = 0"
  shows "thirdToothCount (triggerThird_missingTooth cfg now now' s) = thirdToothCount s + 1"
    and "triggerThirdFilterTime (triggerThird_missingTooth cfg now now' s) = 0"
  using assms
  by (simp_all add: triggerThird_missingTooth_def Let_def split_def getCrankAngle_missingTooth_def)

text \<open>
  C4, as the code has it. On the first edge of the missing-tooth secondary or tertiary
  input (stored last-tooth time 0) the handler takes the gap as 0 and always stores the
  current time as the last-tooth time, whatever the filter duration. The edge then
  passes the filter only when the filter duration is 0: with a filter duration other
  than 0 nothing else changes, with a filter duration 0 the edge is counted (for the
  single-tooth cam pattern the secondary count goes up by one and the sequential
  revolution is reset).
\<close>

theorem first_edge_seeds_timestamp:
  "(toothLastSecToothTime s = 0 \<longrightarrow>
      curGap2 (triggerSec_missingTooth cfg now now' s) = 0
      \<and> toothLastSecToothTime (triggerSec_missingTooth cfg now now' s) = now
      \<and> (triggerSecFilterTime s \<noteq> 0 \<longrightarrow>
           triggerSec_missingTooth cfg now now' s =
             s\<lparr>curTime2 := now, curGap2 := 0, toothLastSecToothTime := now\<rparr>)
      \<and> (triggerSecFilterTime s = 0 \<and> trigPatternSec cfg = SEC_TRIGGER_SINGLE \<longrightarrow>
           secondaryToothCount (triggerSec_missingTooth cfg now now' s)
             = secondaryToothCount s + 1
           \<and> revolutionOne (triggerSec_missingTooth cfg now now' s)))
   \<and> (toothLastThirdToothTime s = 0 \<longrightarrow>
      curGap3 (triggerThird_missingTooth cfg now now' s) = 0
      \<and> toothLastThirdToothTime (triggerThird_missingTooth cfg now now' s) = now
      \<and> (triggerThirdFilterTime s \<noteq> 0 \<longrightarrow>
           triggerThird_missingTooth cfg now now' s =
             s\<lparr>curTime3 := now, curGap3 := 0, toothLastThirdToothTime := now\<rparr>)
      \<and> (triggerThirdFilterTime s = 0 \<longrightarrow>
           thirdToothCount (triggerThird_missingTooth cfg now now' s) = thirdToothCount s + 1))"
  by (simp add: triggerSec_missingTooth_first_edge_seeds
      triggerSec_missingTooth_first_edge_filtered triggerSec_missingTooth_first_edge_single
      triggerThird_missingTooth_first_edge_seeds triggerThird_missingTooth_first_edge_filtered
      triggerThird_missingTooth_first_edge_accepted)

theorem first_edge_seeds_timestamp_witness:
  "triggerSec_missingTooth missingTooth_36_1 100000 100001
       (initial_decoder\<lparr>triggerSecFilterTime := 3333, triggerThirdFilterTime := 3333\<rparr>)
     = initial_decoder\<lparr>triggerSecFilterTime := 3333, triggerThirdFilterTime := 3333,
                        curTime2 := 100000, curGap2 := 0, toothLastSecToothTime := 100000\<rparr>
   \<and> triggerThird_missingTooth missingTooth_36_1 100000 100001
       (initial_decoder\<lparr>triggerSecFilterTime := 3333, triggerThirdFilterTime := 3333\<rparr>)
     = initial_decoder\<lparr>triggerSecFilterTime := 3333, triggerThirdFilterTime := 3333,
                        curTime3 := 100000, curGap3 := 0, toothLastThirdToothTime := 100000\<rparr>
   \<and> secondaryToothCount (triggerSec_missingTooth missingTooth_36_1 100000 100001 initial_decoder)
       = 1
   \<and> revolutionOne (triggerSec_missingTooth missingTooth_36_1 100000 100001 initial_decoder)
   \<and> thirdToothCount (triggerThird_missingTooth missingTooth_36_1 100000 100001 initial_decoder)
       = 1"
  using first_edge_seeds_timestamp
      [of "initial_decoder\<lparr>triggerSecFilterTime := 3333, triggerThirdFilterTime := 3333\<rparr>"
          missingTooth_36_1 100000 100001]
    first_edge_seeds_timestamp [of initial_decoder missingTooth_36_1 100000 100001]
  by (simp add: initial_decoder_def missingTooth_36_1_def)

text \<open>
  C4 as stated fails: with the secondary filter at 3333 microseconds (the value of the
  setup for 18000 RPM), the first secondary edge is not counted, the sequential
  revolution is not reset and the filter is not recomputed.
\<close>

theorem first_edge_not_accepted_counterexample:
  "toothLastSecToothTime (initial_decoder\<lparr>triggerSecFilterTime := 3333\<rparr>) = 0
   \<and> secondaryToothCount
        (triggerSec_missingTooth missingTooth_36_1 100000 100001
           (initial_decoder\<lparr>triggerSecFilterTime := 3333\<rparr>)) = 0
   \<and> \<not> revolutionOne
        (triggerSec_missingTooth missingTooth_36_1 100000 100001
           (initial_decoder\<lparr>triggerSecFilterTime := 3333\<rparr>))
   \<and> triggerSecFilterTime
        (triggerSec_missingTooth missingTooth_36_1 100000 100001
           (initial_decoder\<lparr>triggerSecFilterTime := 3333\<rparr>)) = 3333"
  by (simp add: triggerSec_missingTooth_def Let_def initial_decoder_def missingTooth_36_1_def)

section \<open>Sync from the dual-wheel secondary input\<close>

lemma triggerSec_DualWheel_sync:
  assumes "triggerSecFilterTime s \<le> now - toothLastSecToothTime s"
    and "\<not> hasSync (currentStatus s)
         \<or> startRevolutions (currentStatus s) \<le> ucast (StgCycles cfg)"
  shows "triggerSec_DualWheel cfg now now' now'' s =
           s\<lparr>curTime2 := now, curGap2 := now - toothLastSecToothTime s,
             toothLastSecToothTime := now,
             triggerSecFilterTime := drop_bit 2 (now - toothLastSecToothTime s),
             toothLastToothTime := now',
             toothLastMinusOneToothTime :=
               now'' - (MICROS_PER_MIN div 10) div ucast (triggerTeeth cfg),
             toothCurrentCount := ucast (triggerTeeth cfg),
             triggerFilterTime := 0,
             currentStatus := (currentStatus s)\<lparr>hasSync := True\<rparr>,
             revolutionOne := True\<rparr>"
  using assms by (auto simp add: triggerSec_DualWheel_def Let_def)

text \<open>
  C5. A secondary pulse of the dual-wheel decoder that passes the filter while there is
  no sync, or while the count of start revolutions is at most the configured number of
  start-up cycles, sets the primary tooth counter to the configured tooth count and
  sets the sync flag.
\<close>

theorem triggerSec_DualWheel_forces_sync:
  assumes "triggerSecFilterTime s \<le> now - toothLastSecToothTime s"
    and "\<not> hasSync (currentStatus s)
         \<or> startRevolutions (currentStatus s) \<le> ucast (StgCycles cfg)"
  shows "toothCurrentCount (triggerSec_DualWheel cfg now now' now'' s) = ucast (triggerTeeth cfg)
         \<and> hasSync (currentStatus (triggerSec_DualWheel cfg now now' now'' s))"
  by (simp add: triggerSec_DualWheel_sync [OF assms])

theorem triggerSec_DualWheel_forces_sync_witness:
  "toothCurrentCount (triggerSec_DualWheel dualWheel_60 100000 100001 100002 initial_decoder) = 60
   \<and> hasSync (currentStatus
        (triggerSec_DualWheel dualWheel_60 100000 100001 100002 initial_decoder))
   \<and> toothCurrentCount
        (triggerSec_DualWheel (dualWheel_60\<lparr>StgCycles := 2\<rparr>) 100000 100001 100002
           (running_3000\<lparr>currentStatus := initial_statuses
              \<lparr>hasSync := True, startRevolutions := 2\<rparr>\<rparr>)) = 60"
  using triggerSec_DualWheel_forces_sync [of initial_decoder 100000 dualWheel_60 100001 100002]
    triggerSec_DualWheel_forces_sync
      [of "running_3000\<lparr>currentStatus := initial_statuses
             \<lparr>hasSync := True, startRevolutions := 2\<rparr>\<rparr>"
          100000 "dualWheel_60\<lparr>StgCycles := 2\<rparr>" 100001 100002]
  by (simp add: initial_decoder_def initial_statuses_def dualWheel_60_def running_3000_def)

section \<open>Range of the crank angle\<close>

lemma getCrankAngle_DualWheel_angle:
  "fst (getCrankAngle_DualWheel cfg now s) =
     (let a2 = unwrappedAngle_DualWheel cfg now s;
          a3 = (if 720 \<le>s a2 then a2 - 720 else a2)
      in if a3 <s 0 then a3 + CRANK_ANGLE_MAX cfg else a3)"
  by (simp add: getCrankAngle_DualWheel_def unwrappedAngle_DualWheel_def Let_def
      timeToAngleDegPerMicroSec_def)

lemma getCrankAngle_missingTooth_angle:
  "fst (getCrankAngle_missingTooth cfg now s) =
     (let a2 = unwrappedAngle_missingTooth cfg now s;
          a3 = (if 720 \<le>s a2 then a2 - 720 else a2)
      in if a3 <s 0 then a3 + CRANK_ANGLE_MAX cfg else a3)"
  by (simp add: getCrankAngle_missingTooth_def unwrappedAngle_missingTooth_def Let_def
      timeToAngleDegPerMicroSec_def)

lemma sint_sub_720:
  fixes a :: int16
  assumes "720 \<le> sint a"
  shows "sint (a - 720) = sint a - 720"
proof -
  have "sint a < 2 ^ 15"
    using sint_lt [of a] by simp
  then have "signed_take_bit 15 (sint a - 720) = sint a - 720"
    using assms by (simp add: signed_take_bit_int_eq_self)
  then show ?thesis
    by (simp add: sint_word_ariths)
qed

lemma sint_add_range:
  fixes a c :: int16
  assumes "sint a < 0" and "0 < sint c"
  shows "sint (a + c) = sint a + sint c"
proof -
  have "- (2 ^ 15) \<le> sint a" and "sint c < 2 ^ 15"
    using sint_ge [of a] sint_lt [of c] by simp_all
  then have "signed_take_bit 15 (sint a + sint c) = sint a + sint c"
    using assms by (simp add: signed_take_bit_int_eq_self)
  then show ?thesis
    by (simp add: sint_word_ariths)
qed

lemma normalised_angle_range:
  fixes a c :: int16
  assumes c: "0 < sint c" "sint c \<le> 720"
    and a: "- sint c \<le> sint a" "sint a < 1440"
  shows "0 \<le> sint (let a3 = (if 720 \<le>s a then a - 720 else a)
                    in if a3 <s 0 then a3 + c else a3)
         \<and> sint (let a3 = (if 720 \<le>s a then a - 720 else a)
                  in if a3 <s 0 then a3 + c else a3) < 720"
proof (cases "720 \<le> sint a")
  case True
  then have "sint (a - 720) = sint a - 720"
    by (rule sint_sub_720)
  with True a show ?thesis
    by (simp add: word_sle_eq word_sless_alt)
next
  case False
  show ?thesis
  proof (cases "sint a < 0")
    case True
    then have "sint (a + c) = sint a + sint c"
      using c by (intro sint_add_range)
    with True False a c show ?thesis
      by (simp add: word_sle_eq word_sless_alt)
  next
    case nonneg: False
    with False show ?thesis
      by (simp add: word_sle_eq word_sless_alt)
  qed
qed

text \<open>
  The tooth offset of a counter between 1 and the tooth count, on a wheel whose teeth
  span at most \<open>L\<close> degrees.
\<close>

lemma tooth_offset_value:
  fixes c toothAngle :: uint16 and T L :: int
  assumes c: "1 \<le> uint c" "uint c \<le> T"
    and span: "uint toothAngle * T \<le> L" and L: "0 < L" "L \<le> 720"
  shows "0 \<le> sint ((c - 1) * toothAngle) \<and> sint ((c - 1) * toothAngle) < L"
proof -
  let ?ta = "uint toothAngle"
  have ta: "0 \<le> ?ta"
    by simp
  have m: "uint (c - 1) = uint c - 1"
    using c(1) by (simp add: uint_sub_if' word_le_def)
  have "(uint c - 1) * ?ta \<le> (T - 1) * ?ta"
    using c(2) ta by (intro mult_right_mono) simp_all
  also have "\<dots> = ?ta * T - ?ta"
    by (simp add: algebra_simps)
  finally have le: "(uint c - 1) * ?ta \<le> ?ta * T - ?ta" .
  have ge: "0 \<le> (uint c - 1) * ?ta"
    using c(1) ta by simp
  have lt: "(uint c - 1) * ?ta < L"
  proof (cases "?ta = 0")
    case True
    then show ?thesis
      using L by simp
  next
    case False
    then have "1 \<le> ?ta"
      using ta by linarith
    then show ?thesis
      using le span by linarith
  qed
  define x where "x = c - 1"
  have x: "uint x = uint c - 1"
    unfolding x_def by (rule m)
  have "uint (x * toothAngle) = take_bit 16 (uint x * ?ta)"
    by (simp add: uint_word_ariths take_bit_eq_mod)
  also have "\<dots> = (uint c - 1) * ?ta"
    unfolding x using lt ge L by (intro take_bit_int_eq_self) simp_all
  finally have u: "uint ((c - 1) * toothAngle) = (uint c - 1) * ?ta"
    unfolding x_def .
  have "uint ((c - 1) * toothAngle) < 32768"
    unfolding u using lt L by linarith
  then have "sint ((c - 1) * toothAngle) = (uint c - 1) * ?ta"
    unfolding u [symmetric] by (rule sint_small_uint16)
  then show ?thesis
    using ge lt by simp
qed

text \<open>
  The sum of the four parts of the angle before the range tests, whatever the order in
  which the function adds them.
\<close>

lemma angle_parts_sum:
  fixes offset trig e seq :: int16
  assumes offset: "0 \<le> sint offset" "sint offset < L"
    and trig: "- 360 \<le> sint trig" "sint trig \<le> 360"
    and e: "0 \<le> sint e" "sint e \<le> 360"
    and seq: "0 \<le> sint seq" "sint seq \<le> 360"
    and L: "L + sint seq \<le> 720"
  shows "- 360 \<le> sint (offset + trig + e + seq) \<and> sint (offset + trig + e + seq) < 1440"
    and "- 360 \<le> sint (offset + trig + seq + e) \<and> sint (offset + trig + seq + e) < 1440"
proof -
  have a: "sint (offset + trig) = sint offset + sint trig"
    using offset trig L seq by (intro sint_add16) linarith+
  have b: "sint (offset + trig + e) = sint offset + sint trig + sint e"
    unfolding a [symmetric] using a offset trig e L seq by (intro sint_add16) linarith+
  have c: "sint (offset + trig + e + seq) = sint offset + sint trig + sint e + sint seq"
    unfolding b [symmetric] using b offset trig e L seq by (intro sint_add16) linarith+
  have b': "sint (offset + trig + seq) = sint offset + sint trig + sint seq"
    unfolding a [symmetric] using a offset trig e L seq by (intro sint_add16) linarith+
  have c': "sint (offset + trig + seq + e) = sint offset + sint trig + sint seq + sint e"
    unfolding b' [symmetric] using b' offset trig e L seq by (intro sint_add16) linarith+
  show "- 360 \<le> sint (offset + trig + e + seq) \<and> sint (offset + trig + e + seq) < 1440"
    unfolding c using offset trig e seq L by linarith
  show "- 360 \<le> sint (offset + trig + seq + e) \<and> sint (offset + trig + seq + e) < 1440"
    unfolding c' using offset trig e seq L by linarith
qed


lemma unwrappedAngle_bounds:
  fixes c :: uint16
  assumes trig: "- 360 \<le> sint (triggerAngle cfg)" "sint (triggerAngle cfg) \<le> 360"
    and span: "uint (triggerToothAngle s) * uint (triggerTeeth cfg)
                 \<le> (if TrigSpeed cfg = CRANK_SPEED then 360 else 720)"
    and extra: "timeToAngleDegPerMicroSec s (now - toothLastToothTime s) \<le> 360"
    and c: "1 \<le> uint c" "uint c \<le> uint (triggerTeeth cfg)"
  shows "- 360 \<le> sint ((c - 1) * triggerToothAngle s + triggerAngle cfg
                    + timeToAngleDegPerMicroSec s (now - toothLastToothTime s)
                    + (if revolutionOne s \<and> TrigSpeed cfg = CRANK_SPEED then 360 else 0))
         \<and> sint ((c - 1) * triggerToothAngle s + triggerAngle cfg
                    + timeToAngleDegPerMicroSec s (now - toothLastToothTime s)
                    + (if revolutionOne s \<and> TrigSpeed cfg = CRANK_SPEED then 360 else 0))
             < 1440"
    and "- 360 \<le> sint ((c - 1) * triggerToothAngle s + triggerAngle cfg
                    + (if revolutionOne s \<and> TrigSpeed cfg = CRANK_SPEED then 360 else 0)
                    + timeToAngleDegPerMicroSec s (now - toothLastToothTime s))
         \<and> sint ((c - 1) * triggerToothAngle s + triggerAngle cfg
                    + (if revolutionOne s \<and> TrigSpeed cfg = CRANK_SPEED then 360 else 0)
                    + timeToAngleDegPerMicroSec s (now - toothLastToothTime s))
             < 1440"
proof -
  let ?L = "if TrigSpeed cfg = CRANK_SPEED then 360 else 720 :: int"
  let ?e = "timeToAngleDegPerMicroSec s (now - toothLastToothTime s)"
  let ?seq = "if revolutionOne s \<and> TrigSpeed cfg = CRANK_SPEED then 360 else 0 :: int16"
  have offset: "0 \<le> sint ((c - 1) * triggerToothAngle s)
                \<and> sint ((c - 1) * triggerToothAngle s) < ?L"
    using c span by (intro tooth_offset_value) simp_all
  have "uint ?e \<le> 360"
    using extra by (simp add: word_le_def)
  then have e: "0 \<le> sint ?e" "sint ?e \<le> 360"
    using sint_small_uint16 [of ?e] by simp_all
  have seq: "0 \<le> sint ?seq" "sint ?seq \<le> 360" "?L + sint ?seq \<le> 720"
    by simp_all
  show "- 360 \<le> sint ((c - 1) * triggerToothAngle s + triggerAngle cfg + ?e + ?seq)
         \<and> sint ((c - 1) * triggerToothAngle s + triggerAngle cfg + ?e + ?seq) < 1440"
    using offset trig e seq by (intro angle_parts_sum(1) [where L = ?L]) simp_all
  show "- 360 \<le> sint ((c - 1) * triggerToothAngle s + triggerAngle cfg + ?seq + ?e)
         \<and> sint ((c - 1) * triggerToothAngle s + triggerAngle cfg + ?seq + ?e) < 1440"
    using offset trig e seq by (intro angle_parts_sum(2) [where L = ?L]) simp_all
qed

text \<open>
  C2, as the code has it. Both variants of \<open>getCrankAngle\<close> subtract 720 once when the
  angle has reached 720 and add \<open>CRANK_ANGLE_MAX\<close> once when it is negative, so the
  result is never negative and stays below 720 under these conditions on the inputs:
  \<open>CRANK_ANGLE_MAX\<close> is 360 to 720, the trigger angle is -360 to 360, the wheel has a
  tooth and its teeth span at most 360 degrees at crank speed and 720 at cam speed, the
  tooth counter is at most the tooth count (and at least 1 for the missing-tooth
  variant), and the extrapolated part is at most 360 degrees. The result is within the
  angle range when that is 720; it is not brought below 360 when the range is 360.
\<close>

theorem getCrankAngle_range:
  assumes cam: "360 \<le> sint (CRANK_ANGLE_MAX cfg)" "sint (CRANK_ANGLE_MAX cfg) \<le> 720"
    and trig: "- 360 \<le> sint (triggerAngle cfg)" "sint (triggerAngle cfg) \<le> 360"
    and teeth: "0 < triggerTeeth cfg"
    and span: "uint (triggerToothAngle s) * uint (triggerTeeth cfg)
                 \<le> (if TrigSpeed cfg = CRANK_SPEED then 360 else 720)"
    and extra: "timeToAngleDegPerMicroSec s (now - toothLastToothTime s) \<le> 360"
  shows "(toothCurrentCount s \<le> ucast (triggerTeeth cfg) \<longrightarrow>
            0 \<le> sint (fst (getCrankAngle_DualWheel cfg now s))
            \<and> sint (fst (getCrankAngle_DualWheel cfg now s)) < 720)
       \<and> (1 \<le> toothCurrentCount s \<and> toothCurrentCount s \<le> ucast (triggerTeeth cfg) \<longrightarrow>
            0 \<le> sint (fst (getCrankAngle_missingTooth cfg now s))
            \<and> sint (fst (getCrankAngle_missingTooth cfg now s)) < 720)"
proof (intro conjI impI)
  have t: "1 \<le> uint (triggerTeeth cfg)"
    using teeth by (simp add: word_less_def)
  have ut: "uint (ucast (triggerTeeth cfg) :: uint16) = uint (triggerTeeth cfg)"
    by (rule uint_ucast_8_16)
  have pos: "0 < sint (CRANK_ANGLE_MAX cfg)"
    using cam by linarith
  {
    assume le: "toothCurrentCount s \<le> ucast (triggerTeeth cfg)"
    let ?c = "if toothCurrentCount s = 0 then ucast (triggerTeeth cfg) else toothCurrentCount s"
    have c: "1 \<le> uint ?c" "uint ?c \<le> uint (triggerTeeth cfg)"
    proof -
      show "1 \<le> uint ?c"
      proof (cases "toothCurrentCount s = 0")
        case True
        then show ?thesis
          using t ut by simp
      next
        case False
        then have "uint (toothCurrentCount s) \<noteq> 0"
          by (simp add: uint_0_iff)
        moreover have "0 \<le> uint (toothCurrentCount s)"
          by simp
        ultimately have "1 \<le> uint (toothCurrentCount s)"
          by linarith
        then show ?thesis
          using False by simp
      qed
      show "uint ?c \<le> uint (triggerTeeth cfg)"
        using le ut by (simp add: word_le_def)
    qed
    have "- 360 \<le> sint (unwrappedAngle_DualWheel cfg now s)
          \<and> sint (unwrappedAngle_DualWheel cfg now s) < 1440"
      unfolding unwrappedAngle_DualWheel_def
      by (rule unwrappedAngle_bounds(1) [OF trig span extra c])
    then have "- sint (CRANK_ANGLE_MAX cfg) \<le> sint (unwrappedAngle_DualWheel cfg now s)"
      and "sint (unwrappedAngle_DualWheel cfg now s) < 1440"
      using cam by linarith+
    then show "0 \<le> sint (fst (getCrankAngle_DualWheel cfg now s))"
      and "sint (fst (getCrankAngle_DualWheel cfg now s)) < 720"
      using normalised_angle_range [OF pos cam(2), of "unwrappedAngle_DualWheel cfg now s"]
      by (simp_all add: getCrankAngle_DualWheel_angle Let_def)
  }
  {
    assume h: "1 \<le> toothCurrentCount s \<and> toothCurrentCount s \<le> ucast (triggerTeeth cfg)"
    have c: "1 \<le> uint (toothCurrentCount s)"
      "uint (toothCurrentCount s) \<le> uint (triggerTeeth cfg)"
      using h ut by (simp_all add: word_le_def)
    have "- 360 \<le> sint (unwrappedAngle_missingTooth cfg now s)
          \<and> sint (unwrappedAngle_missingTooth cfg now s) < 1440"
      unfolding unwrappedAngle_missingTooth_def
      by (rule unwrappedAngle_bounds(2) [OF trig span extra c])
    then have "- sint (CRANK_ANGLE_MAX cfg) \<le> sint (unwrappedAngle_missingTooth cfg now s)"
      and "sint (unwrappedAngle_missingTooth cfg now s) < 1440"
      using cam by linarith+
    then show "0 \<le> sint (fst (getCrankAngle_missingTooth cfg now s))"
      and "sint (fst (getCrankAngle_missingTooth cfg now s)) < 720"
      using normalised_angle_range [OF pos cam(2), of "unwrappedAngle_missingTooth cfg now s"]
      by (simp_all add: getCrankAngle_missingTooth_angle Let_def)
  }
qed

theorem getCrankAngle_range_witness:
  "sint (fst (getCrankAngle_DualWheel dualWheel_60 6000
      (running_3000\<lparr>toothCurrentCount := 60, triggerToothAngle := 6, revolutionOne := True\<rparr>)))
     = 12
   \<and> sint (fst (getCrankAngle_missingTooth (missingTooth_36_1\<lparr>triggerAngle := - 20\<rparr>) 5000
      (running_3000\<lparr>toothCurrentCount := 1\<rparr>))) = 700
   \<and> sint (fst (getCrankAngle_missingTooth missingTooth_36_1 6000 running_3000)) = 108"
  using getCrankAngle_range [of dualWheel_60
      "running_3000\<lparr>toothCurrentCount := 60, triggerToothAngle := 6, revolutionOne := True\<rparr>"
      6000]
    getCrankAngle_range [of "missingTooth_36_1\<lparr>triggerAngle := - 20\<rparr>"
      "running_3000\<lparr>toothCurrentCount := 1\<rparr>" 5000]
    getCrankAngle_range [of missingTooth_36_1 running_3000 6000]
  by (simp add: getCrankAngle_DualWheel_def getCrankAngle_missingTooth_def Let_def
      timeToAngleDegPerMicroSec_def RSHIFT_ROUND_def running_3000_def initial_decoder_def
      dualWheel_60_def missingTooth_36_1_def word_sless_alt word_sle_eq)

text \<open>
  C2 as stated fails. A 4-tooth dual wheel at crank speed with tooth 1 at 100 degrees
  and an angle range of 360: after the sync pulse and four primary edges the decoder is
  at tooth 4 with the sequential revolution flag off, and the angle is 370. A 36-1 wheel at 3000 RPM
  asked 100 milliseconds after its last tooth: the angle is 1171 with a range of 720.
\<close>

theorem getCrankAngle_out_of_range_counterexample:
  "sint (CRANK_ANGLE_MAX dualWheel_4) = 360
   \<and> sint (fst (getCrankAngle_DualWheel dualWheel_4 5000
        (triggerPri_DualWheel dualWheel_4 5000
          (triggerPri_DualWheel dualWheel_4 4000
            (triggerPri_DualWheel dualWheel_4 3000
              (triggerPri_DualWheel dualWheel_4 2000
                (triggerSec_DualWheel dualWheel_4 1000 1001 1002
                  (initial_decoder\<lparr>triggerToothAngle := 90\<rparr>)))))))) = 370
   \<and> sint (CRANK_ANGLE_MAX missingTooth_36_1) = 720
   \<and> sint (fst (getCrankAngle_missingTooth missingTooth_36_1 105000 running_3000)) = 1171"
  by (simp add: getCrankAngle_DualWheel_def getCrankAngle_missingTooth_def
      missingTooth_36_1_def running_3000_def triggerPri_DualWheel_def triggerSec_DualWheel_def
      setFilter_def Let_def timeToAngleDegPerMicroSec_def RSHIFT_ROUND_def
      initial_decoder_def initial_statuses_def dualWheel_4_def MICROS_PER_MIN_def
      word_sless_alt word_sle_eq)




section \<open>Range and margin of the ignition end teeth\<close>

















text \<open>
  C8, as the code has it. The missing-tooth end-tooth computation takes one tooth off
  the quotient before clamping when the configured tooth count is above 12 and takes
  nothing off when it is 12 or less. The dual-wheel computation clamps the quotient as
  it is, at every tooth count.
\<close>

theorem end_tooth_margin:
  "(12 < triggerTeeth cfg \<longrightarrow>
      calcEndTeeth_missingTooth cfg s angle toothAdder =
        clampToActualTeeth cfg s
          (clampToToothCount cfg
             (sdiv16 (angle - triggerAngle cfg) (triggerToothAngle s) - 1) toothAdder)
          toothAdder)
   \<and> (triggerTeeth cfg \<le> 12 \<longrightarrow>
      calcEndTeeth_missingTooth cfg s angle toothAdder =
        clampToActualTeeth cfg s
          (clampToToothCount cfg
             (sdiv16 (angle - triggerAngle cfg) (triggerToothAngle s)) toothAdder)
          toothAdder)
   \<and> calcEndTeeth_DualWheel cfg s angle toothAdder =
        clampToToothCount cfg (sdiv16 (angle - triggerAngle cfg) (triggerToothAngle s)) toothAdder"
  by (auto simp add: calcEndTeeth_missingTooth_def calcEndTeeth_DualWheel_def Let_def)

theorem end_tooth_margin_witness:
  "uint (calcEndTeeth_missingTooth missingTooth_36_1 running_3000 200 0) = 19
   \<and> uint (calcEndTeeth_missingTooth
         (missingTooth_36_1\<lparr>triggerTeeth := 12\<rparr>)
         (running_3000\<lparr>triggerToothAngle := 30, triggerActualTeeth := 11\<rparr>) 200 0) = 6
   \<and> uint (calcEndTeeth_DualWheel dualWheel_60 (initial_decoder\<lparr>triggerToothAngle := 6\<rparr>)
         120 0) = 20"
  using end_tooth_margin [of missingTooth_36_1 running_3000 200 0]
    end_tooth_margin [of "missingTooth_36_1\<lparr>triggerTeeth := 12\<rparr>"
      "running_3000\<lparr>triggerToothAngle := 30, triggerActualTeeth := 11\<rparr>" 200 0]
    end_tooth_margin [of dualWheel_60 "initial_decoder\<lparr>triggerToothAngle := 6\<rparr>" 120 0]
  by (simp add: clampToActualTeeth_def clampToToothCount_def nudge_def sdiv16_def
      signed_divide_int_def word_sless_alt missingTooth_36_1_def dualWheel_60_def
      running_3000_def initial_decoder_def)

text \<open>
  C8 as stated fails for the dual wheel: with 60 teeth of 6 degrees and an end angle of
  120 degrees the end tooth is 20, the quotient, and not 19.
\<close>

theorem dualWheel_no_margin_counterexample:
  "12 < triggerTeeth dualWheel_60
   \<and> calcEndTeeth_DualWheel dualWheel_60 (initial_decoder\<lparr>triggerToothAngle := 6\<rparr>) 120 0
       \<noteq> clampToToothCount dualWheel_60
            (sdiv16 (120 - triggerAngle dualWheel_60)
               (triggerToothAngle (initial_decoder\<lparr>triggerToothAngle := 6\<rparr>)) - 1) 0"
  by (simp add: calcEndTeeth_DualWheel_def clampToToothCount_def nudge_def sdiv16_def
      signed_divide_int_def word_sless_alt dualWheel_60_def initial_decoder_def)

section \<open>RPM at or above the maximum\<close>

lemma clampRpm_halves:
  "MAX_RPM cfg \<le> rpm \<Longrightarrow> clampRpm cfg s rpm = RPM (currentStatus s)"
  "rpm < MAX_RPM cfg \<Longrightarrow> clampRpm cfg s rpm = rpm"
  by (auto simp add: clampRpm_def)

lemma RpmFromRevolutionTimeUs_computed:
  "RpmFromRevolutionTimeUs cfg s revTime = clampRpm cfg s (computedRpm revTime)"
  by (simp add: RpmFromRevolutionTimeUs_def computedRpm_def)

lemma RpmFromRevolutionTimeUs_after_update:
  assumes "revTime \<noteq> revolutionTime s"
  shows "RpmFromRevolutionTimeUs cfg (snd (SetRevolutionTime revTime s))
           (revolutionTime (snd (SetRevolutionTime revTime s)))
         = clampRpm cfg s (computedRpm revTime)"
  using assms
  by (simp add: SetRevolutionTime_def Let_def RpmFromRevolutionTimeUs_computed clampRpm_def)

lemma stdGetRPM_value:
  "fst (stdGetRPM cfg isCam s) =
     (if steadyUpdates isCam s then clampRpm cfg s (computedRpm (steadyRevolutionTime isCam s))
      else RPM (currentStatus s))"
proof (cases "steadyUpdates isCam s")
  case True
  then have differs: "steadyRevolutionTime isCam s \<noteq> revolutionTime s"
    by (simp add: steadyUpdates_def)
  obtain s' where set: "SetRevolutionTime (steadyRevolutionTime isCam s) s = (True, s')"
    using differs by (simp add: SetRevolutionTime_def Let_def)
  then have s': "s' = snd (SetRevolutionTime (steadyRevolutionTime isCam s) s)"
    by simp
  have "UpdateRevolutionTimeFromTeeth isCam s = (True, s')"
    using True set
    by (simp add: UpdateRevolutionTimeFromTeeth_def steadyUpdates_def steadyRevolutionTime_def)
  then have "fst (stdGetRPM cfg isCam s) = RpmFromRevolutionTimeUs cfg s' (revolutionTime s')"
    by (simp add: stdGetRPM_def)
  then show ?thesis
    unfolding s' using True differs by (simp add: RpmFromRevolutionTimeUs_after_update)
next
  case False
  have "\<exists>s'. UpdateRevolutionTimeFromTeeth isCam s = (False, s')
             \<and> currentStatus s' = currentStatus s"
    using False
    by (auto simp add: UpdateRevolutionTimeFromTeeth_def steadyUpdates_def
        steadyRevolutionTime_def SetRevolutionTime_def)
  then show ?thesis
    using False by (auto simp add: stdGetRPM_def)
qed

lemma crankingGetRPM_value:
  "fst (crankingGetRPM cfg totalTeeth isCam s) =
     (if crankingUpdates cfg totalTeeth isCam s
      then clampRpm cfg s (computedRpm (crankingRevolutionTime totalTeeth isCam s))
      else RPM (currentStatus s))"
proof (cases "crankingUpdates cfg totalTeeth isCam s")
  case True
  then have differs: "crankingRevolutionTime totalTeeth isCam s \<noteq> revolutionTime s"
    by (simp add: crankingUpdates_def)
  obtain s' where set:
    "SetRevolutionTime (crankingRevolutionTime totalTeeth isCam s) s = (True, s')"
    using differs by (simp add: SetRevolutionTime_def Let_def)
  then have s': "s' = snd (SetRevolutionTime (crankingRevolutionTime totalTeeth isCam s) s)"
    by simp
  have "fst (crankingGetRPM cfg totalTeeth isCam s)
          = RpmFromRevolutionTimeUs cfg s' (revolutionTime s')"
    using True set
    by (simp add: crankingGetRPM_def crankingUpdates_def crankingRevolutionTime_def)
  then show ?thesis
    unfolding s' using True differs by (simp add: RpmFromRevolutionTimeUs_after_update)
next
  case False
  then show ?thesis
    by (auto simp add: crankingGetRPM_def crankingUpdates_def crankingRevolutionTime_def
        SetRevolutionTime_def)
qed

text \<open>
  C7. A computed RPM at or above \<open>MAX_RPM\<close> is discarded and the stored RPM returned;
  a computed RPM below \<open>MAX_RPM\<close> is returned as it is. This holds for \<open>clampRpm\<close>,
  for \<open>RpmFromRevolutionTimeUs\<close> on the rounded quotient, and for the steady-state
  and the cranking RPM functions whenever they compute a new RPM; when they do not,
  they return the stored RPM.
\<close>

theorem rpm_at_or_above_maximum_discarded:
  "(MAX_RPM cfg \<le> rpm \<longrightarrow> clampRpm cfg s rpm = RPM (currentStatus s))
   \<and> (rpm < MAX_RPM cfg \<longrightarrow> clampRpm cfg s rpm = rpm)
   \<and> (MAX_RPM cfg \<le> computedRpm revTime \<longrightarrow>
        RpmFromRevolutionTimeUs cfg s revTime = RPM (currentStatus s))
   \<and> (computedRpm revTime < MAX_RPM cfg \<longrightarrow>
        RpmFromRevolutionTimeUs cfg s revTime = computedRpm revTime)
   \<and> (steadyUpdates isCam s
        \<and> MAX_RPM cfg \<le> computedRpm (steadyRevolutionTime isCam s) \<longrightarrow>
        fst (stdGetRPM cfg isCam s) = RPM (currentStatus s))
   \<and> (steadyUpdates isCam s
        \<and> computedRpm (steadyRevolutionTime isCam s) < MAX_RPM cfg \<longrightarrow>
        fst (stdGetRPM cfg isCam s) = computedRpm (steadyRevolutionTime isCam s))
   \<and> (\<not> steadyUpdates isCam s \<longrightarrow> fst (stdGetRPM cfg isCam s) = RPM (currentStatus s))
   \<and> (crankingUpdates cfg totalTeeth isCam s
        \<and> MAX_RPM cfg \<le> computedRpm (crankingRevolutionTime totalTeeth isCam s) \<longrightarrow>
        fst (crankingGetRPM cfg totalTeeth isCam s) = RPM (currentStatus s))
   \<and> (crankingUpdates cfg totalTeeth isCam s
        \<and> computedRpm (crankingRevolutionTime totalTeeth isCam s) < MAX_RPM cfg \<longrightarrow>
        fst (crankingGetRPM cfg totalTeeth isCam s)
          = computedRpm (crankingRevolutionTime totalTeeth isCam s))
   \<and> (\<not> crankingUpdates cfg totalTeeth isCam s \<longrightarrow>
        fst (crankingGetRPM cfg totalTeeth isCam s) = RPM (currentStatus s))"
  by (simp add: stdGetRPM_value crankingGetRPM_value RpmFromRevolutionTimeUs_computed
      clampRpm_halves)

theorem rpm_at_or_above_maximum_discarded_witness:
  "clampRpm dualWheel_60 running_3000 18000 = 3000
   \<and> clampRpm dualWheel_60 running_3000 17999 = 17999
   \<and> RpmFromRevolutionTimeUs dualWheel_60 running_3000 10000 = 6000
   \<and> RpmFromRevolutionTimeUs dualWheel_60 running_3000 3000 = 3000
   \<and> fst (stdGetRPM dualWheel_60 False
        (running_3000\<lparr>toothOneMinusOneTime := 1000, toothOneTime := 11000\<rparr>)) = 6000
   \<and> fst (stdGetRPM dualWheel_60 False
        (running_3000\<lparr>toothOneMinusOneTime := 1000, toothOneTime := 4000\<rparr>)) = 3000
   \<and> fst (stdGetRPM dualWheel_60 False running_3000) = 3000
   \<and> fst (crankingGetRPM dualWheel_60 60 False
        (running_3000\<lparr>toothLastMinusOneToothTime := 4500\<rparr>)) = 2000
   \<and> fst (crankingGetRPM dualWheel_60 60 False
        (running_3000\<lparr>toothLastMinusOneToothTime := 4950\<rparr>)) = 3000
   \<and> fst (crankingGetRPM dualWheel_60 60 False running_3000) = 3000"
  using rpm_at_or_above_maximum_discarded [of dualWheel_60 18000 running_3000 10000 False 60]
    rpm_at_or_above_maximum_discarded [of dualWheel_60 17999 running_3000 3000 False 60]
    rpm_at_or_above_maximum_discarded [of dualWheel_60 17999
      "running_3000\<lparr>toothOneMinusOneTime := 1000, toothOneTime := 11000\<rparr>" 3000 False 60]
    rpm_at_or_above_maximum_discarded [of dualWheel_60 17999
      "running_3000\<lparr>toothOneMinusOneTime := 1000, toothOneTime := 4000\<rparr>" 3000 False 60]
    rpm_at_or_above_maximum_discarded [of dualWheel_60 17999
      "running_3000\<lparr>toothLastMinusOneToothTime := 4500\<rparr>" 3000 False 60]
    rpm_at_or_above_maximum_discarded [of dualWheel_60 17999
      "running_3000\<lparr>toothLastMinusOneToothTime := 4950\<rparr>" 3000 False 60]
  by (simp add: computedRpm_def steadyUpdates_def steadyRevolutionTime_def
      crankingUpdates_def crankingRevolutionTime_def HasAnySync_def IsCranking_def
      udiv_32_16_closest_def UDIV_ROUND_CLOSEST_def MICROS_PER_MIN_def
      UINT16_MAX_def dualWheel_60_def running_3000_def initial_decoder_def initial_statuses_def)

end
